theory Spec2Isabelle
  imports Complex_Main "HOL-Library.AList"
begin

section \<open>Python values and built-ins used by the scraper\<close>

text \<open>
  The scraper is Python. A string is modelled as a \<^typ>\<open>string\<close> whose characters stand
  for the code points below 256; the character classes of \<^verbatim>\<open>str.isspace\<close>,
  \<^verbatim>\<open>str.lower\<close> and of the \<^verbatim>\<open>re\<close> module are written out for that range.
  Exceptions are values of \<open>py_exn\<close>; a function that can raise returns
  \<open>py_exn + 'a\<close> with \<open>Inl\<close> for the raised exception.
\<close>

datatype py_exn =
    TypeError | ValueError | KeyError | IndexError | OverflowError | OSError
  | JSONDecodeError | RuntimeError | RequestError

text \<open>\<^verbatim>\<open>json.JSONDecodeError\<close> is a subclass of \<^verbatim>\<open>ValueError\<close>; the other classes are unrelated.\<close>

fun is_subclass :: "py_exn \<Rightarrow> py_exn \<Rightarrow> bool" where
  "is_subclass JSONDecodeError ValueError = True"
| "is_subclass e c = (e = c)"

definition caught_by :: "py_exn list \<Rightarrow> py_exn \<Rightarrow> bool" where
  "caught_by classes e = list_ex (is_subclass e) classes"

text \<open>
  A Python float: a finite value, the negative zero, the two infinities or NaN
  (\<^verbatim>\<open>json.loads\<close> yields the infinities for \<^verbatim>\<open>1e999\<close> and \<^verbatim>\<open>Infinity\<close>).
\<close>

datatype pyfloat = Fin rat | NegZero | PInf | NInf | NaN

text \<open>What \<^verbatim>\<open>json.loads\<close> returns.\<close>

datatype json =
    JNull | JBool bool | JInt int | JFloat pyfloat | JStr string
  | JArr "json list" | JObj "(string \<times> json) list"

type_synonym instant = int  \<comment> \<open>a naive datetime: microseconds since 0001-01-01T00:00:00\<close>

type_synonym review = "(string \<times> json) list"  \<comment> \<open>a review dictionary, in insertion order\<close>

text \<open>
  Library functions whose results depend on the platform (local time zone, float
  formatting, the JSON and CSV writers) are parameters of the model.
\<close>

record pylib =
  now :: instant                                   \<comment> \<open>\<^verbatim>\<open>datetime.now()\<close>\<close>
  dt_str :: "instant \<Rightarrow> string"                    \<comment> \<open>\<^verbatim>\<open>str(dt)\<close>\<close>
  isoformat :: "instant \<Rightarrow> string"                 \<comment> \<open>\<^verbatim>\<open>dt.isoformat()\<close>\<close>
  fromisoformat :: "string \<Rightarrow> instant option"      \<comment> \<open>\<^verbatim>\<open>datetime.fromisoformat\<close>, None for ValueError\<close>
  ts_isoformat :: "int \<Rightarrow> py_exn + string"         \<comment> \<open>\<^verbatim>\<open>datetime.fromtimestamp(t / 1000000).isoformat()\<close>\<close>
  float_repr :: "pyfloat \<Rightarrow> string"                \<comment> \<open>\<^verbatim>\<open>repr(f)\<close>\<close>
  float_of_int :: "int \<Rightarrow> py_exn + pyfloat"        \<comment> \<open>\<^verbatim>\<open>float(n)\<close>\<close>
  loads :: "string \<Rightarrow> py_exn + json"               \<comment> \<open>\<^verbatim>\<open>json.loads\<close>\<close>
  json_dump :: "review list \<Rightarrow> string"             \<comment> \<open>\<^verbatim>\<open>json.dump(reviews, f, indent=2, ensure_ascii=False)\<close>\<close>
  csv_write :: "string list \<Rightarrow> review list \<Rightarrow> string"
    \<comment> \<open>\<^verbatim>\<open>DictWriter(f, fieldnames, extrasaction="ignore")\<close>: header, then the rows\<close>

subsection \<open>Characters and strings\<close>

definition is_space :: "char \<Rightarrow> bool" where
  "is_space c = ((of_char c :: nat) \<in> {9, 10, 11, 12, 13, 28, 29, 30, 31, 32, 133, 160})"

definition is_digit :: "char \<Rightarrow> bool" where
  "is_digit c = (48 \<le> (of_char c :: nat) \<and> (of_char c :: nat) \<le> 57)"

definition is_hex :: "char \<Rightarrow> bool" where
  "is_hex c = (is_digit c \<or> c \<in> set ''abcdefABCDEF'')"

text \<open>
  \<^verbatim>\<open>str.lower\<close> below code point 256: the letters A to Z, and the letters 0xC0 to 0xDE
  without the multiplication sign 0xD7, move up by 32.
\<close>

definition upper_chars :: string where
  "upper_chars =
     ''ABCDEFGHIJKLMNOPQRSTUVWXYZ'' @
       [CHR 0xC0, CHR 0xC1, CHR 0xC2, CHR 0xC3, CHR 0xC4, CHR 0xC5, CHR 0xC6, CHR 0xC7,
        CHR 0xC8, CHR 0xC9, CHR 0xCA, CHR 0xCB, CHR 0xCC, CHR 0xCD, CHR 0xCE, CHR 0xCF,
        CHR 0xD0, CHR 0xD1, CHR 0xD2, CHR 0xD3, CHR 0xD4, CHR 0xD5, CHR 0xD6, CHR 0xD8,
        CHR 0xD9, CHR 0xDA, CHR 0xDB, CHR 0xDC, CHR 0xDD, CHR 0xDE]"

definition lower_chars :: string where
  "lower_chars =
     ''abcdefghijklmnopqrstuvwxyz'' @
       [CHR 0xE0, CHR 0xE1, CHR 0xE2, CHR 0xE3, CHR 0xE4, CHR 0xE5, CHR 0xE6, CHR 0xE7,
        CHR 0xE8, CHR 0xE9, CHR 0xEA, CHR 0xEB, CHR 0xEC, CHR 0xED, CHR 0xEE, CHR 0xEF,
        CHR 0xF0, CHR 0xF1, CHR 0xF2, CHR 0xF3, CHR 0xF4, CHR 0xF5, CHR 0xF6, CHR 0xF8,
        CHR 0xF9, CHR 0xFA, CHR 0xFB, CHR 0xFC, CHR 0xFD, CHR 0xFE]"

definition lower_char :: "char \<Rightarrow> char" where
  "lower_char c = (case map_of (zip upper_chars lower_chars) c of Some l \<Rightarrow> l | None \<Rightarrow> c)"

definition lower :: "string \<Rightarrow> string" where
  "lower s = map lower_char s"

definition strip :: "string \<Rightarrow> string" where
  "strip s = rev (dropWhile is_space (rev (dropWhile is_space s)))"

fun contains :: "string \<Rightarrow> string \<Rightarrow> bool" where
  "contains p [] = (p = [])"
| "contains p (c # s) = (take (length p) (c # s) = p \<or> contains p s)"

definition digit_val :: "char \<Rightarrow> nat" where
  "digit_val c = of_char c - 48"

definition nat_of_digits :: "string \<Rightarrow> nat" where
  "nat_of_digits ds = foldl (\<lambda>acc c. 10 * acc + digit_val c) 0 ds"

fun show_nat :: "nat \<Rightarrow> string" where
  "show_nat n =
     (if n < 10 then [''0123456789'' ! n]
      else show_nat (n div 10) @ [''0123456789'' ! (n mod 10)])"

definition show_int :: "int \<Rightarrow> string" where
  "show_int i = (if i < 0 then CHR ''-'' # show_nat (nat (- i)) else show_nat (nat i))"

subsection \<open>Truth value, \<^verbatim>\<open>len\<close>, indexing, \<^verbatim>\<open>str\<close> and \<^verbatim>\<open>int\<close> on decoded JSON\<close>

fun float_truthy :: "pyfloat \<Rightarrow> bool" where
  "float_truthy (Fin q) = (q \<noteq> 0)"
| "float_truthy NegZero = False"
| "float_truthy f = True"

fun truthy :: "json \<Rightarrow> bool" where
  "truthy JNull = False"
| "truthy (JBool b) = b"
| "truthy (JInt n) = (n \<noteq> 0)"
| "truthy (JFloat f) = float_truthy f"
| "truthy (JStr s) = (s \<noteq> [])"
| "truthy (JArr xs) = (xs \<noteq> [])"
| "truthy (JObj kvs) = (kvs \<noteq> [])"

fun py_len :: "json \<Rightarrow> py_exn + nat" where
  "py_len (JStr s) = Inr (length s)"
| "py_len (JArr xs) = Inr (length xs)"
| "py_len (JObj kvs) = Inr (length kvs)"
| "py_len x = Inl TypeError"

text \<open>
  \<^verbatim>\<open>x[i]\<close> for a constant index \<open>i \<ge> 0\<close>. The keys of a decoded JSON object are
  strings, so an integer key is never found.
\<close>

fun py_getitem :: "json \<Rightarrow> nat \<Rightarrow> py_exn + json" where
  "py_getitem (JArr xs) i = (if i < length xs then Inr (xs ! i) else Inl IndexError)"
| "py_getitem (JStr s) i = (if i < length s then Inr (JStr [s ! i]) else Inl IndexError)"
| "py_getitem (JObj kvs) i = Inl KeyError"
| "py_getitem x i = Inl TypeError"

definition hex2 :: "nat \<Rightarrow> string" where
  "hex2 n = [''0123456789abcdef'' ! (n div 16), ''0123456789abcdef'' ! (n mod 16)]"

definition repr_char :: "char \<Rightarrow> char \<Rightarrow> string" where
  "repr_char quote c =
     (let n = (of_char c :: nat)
      in if c = quote \<or> c = CHR 0x5C then [CHR 0x5C, c]
         else if n = 9 then [CHR 0x5C, CHR ''t'']
         else if n = 10 then [CHR 0x5C, CHR ''n'']
         else if n = 13 then [CHR 0x5C, CHR ''r'']
         else if n < 32 \<or> n = 127 \<or> (128 \<le> n \<and> n \<le> 160) \<or> n = 173
           then [CHR 0x5C, CHR ''x''] @ hex2 n
         else [c])"

definition repr_str :: "string \<Rightarrow> string" where
  "repr_str s =
     (let quote = (if CHR 0x27 \<in> set s \<and> CHR 0x22 \<notin> set s then CHR 0x22 else CHR 0x27)
      in [quote] @ concat (map (repr_char quote) s) @ [quote])"

fun join :: "string \<Rightarrow> string list \<Rightarrow> string" where
  "join sep [] = []"
| "join sep [x] = x"
| "join sep (x # y # ys) = x @ sep @ join sep (y # ys)"

fun py_repr :: "pylib \<Rightarrow> json \<Rightarrow> string" where
  "py_repr L JNull = ''None''"
| "py_repr L (JBool b) = (if b then ''True'' else ''False'')"
| "py_repr L (JInt n) = show_int n"
| "py_repr L (JFloat f) = float_repr L f"
| "py_repr L (JStr s) = repr_str s"
| "py_repr L (JArr xs) = ''['' @ join '', '' (map (py_repr L) xs) @ '']''"
| "py_repr L (JObj kvs) =
     ''{'' @ join '', '' (map (\<lambda>kv. repr_str (fst kv) @ '': '' @ py_repr L (snd kv)) kvs) @ ''}''"

definition py_str :: "pylib \<Rightarrow> json \<Rightarrow> string" where
  "py_str L x = (case x of JStr s \<Rightarrow> s | _ \<Rightarrow> py_repr L x)"

subsection \<open>The subset of regular expressions the source uses\<close>

text \<open>
  The patterns passed to \<^verbatim>\<open>re.search\<close> are sequences of literals and of greedy
  repetitions of one character class, with at most one capturing group. A repetition
  tries the longest run first and gives characters back one at a time (backtracking);
  \<^verbatim>\<open>re.search\<close> tries every start position from the left.
\<close>

datatype cls = Digit | Space | Hex | OneOf string

fun in_cls :: "cls \<Rightarrow> char \<Rightarrow> bool" where
  "in_cls Digit c = is_digit c"
| "in_cls Space c = is_space c"
| "in_cls Hex c = is_hex c"
| "in_cls (OneOf cs) c = (c \<in> set cs)"

datatype item =
    Lit string      \<comment> \<open>the literal text\<close>
  | One cls         \<comment> \<open>\<^verbatim>\<open>[...]\<close>\<close>
  | Opt cls         \<comment> \<open>\<^verbatim>\<open>[...]?\<close>\<close>
  | Star cls        \<comment> \<open>\<^verbatim>\<open>[...]*\<close>\<close>
  | Plus cls        \<comment> \<open>\<^verbatim>\<open>[...]+\<close>\<close>
  | CapPlus cls     \<comment> \<open>\<^verbatim>\<open>([...]+)\<close>, the capturing group\<close>

type_synonym rx_result = "(string list \<times> string) option"  \<comment> \<open>the groups and the unread rest\<close>

primrec try_down :: "nat \<Rightarrow> (nat \<Rightarrow> 'a option) \<Rightarrow> nat \<Rightarrow> 'a option" where
  "try_down lo f 0 = (if lo = 0 then f 0 else None)"
| "try_down lo f (Suc n) =
     (if Suc n < lo then None
      else case f (Suc n) of Some r \<Rightarrow> Some r | None \<Rightarrow> try_down lo f n)"

definition rx_rep :: "bool \<Rightarrow> cls \<Rightarrow> nat \<Rightarrow> nat option \<Rightarrow> (string \<Rightarrow> rx_result) \<Rightarrow> string \<Rightarrow> rx_result" where
  "rx_rep cap c lo hi k s =
     (let run = length (takeWhile (in_cls c) s);
          n = (case hi of None \<Rightarrow> run | Some h \<Rightarrow> min h run)
      in try_down lo
           (\<lambda>j. case k (drop j s) of
                  None \<Rightarrow> None
                | Some (groups, rest) \<Rightarrow> Some (if cap then take j s # groups else groups, rest))
           n)"

fun rx_item :: "item \<Rightarrow> (string \<Rightarrow> rx_result) \<Rightarrow> string \<Rightarrow> rx_result" where
  "rx_item (Lit l) k s = (if take (length l) s = l then k (drop (length l) s) else None)"
| "rx_item (One c) k s = rx_rep False c 1 (Some 1) k s"
| "rx_item (Opt c) k s = rx_rep False c 0 (Some 1) k s"
| "rx_item (Star c) k s = rx_rep False c 0 None k s"
| "rx_item (Plus c) k s = rx_rep False c 1 None k s"
| "rx_item (CapPlus c) k s = rx_rep True c 1 None k s"

primrec rx_match :: "item list \<Rightarrow> string \<Rightarrow> rx_result" where
  "rx_match [] s = Some ([], s)"
| "rx_match (it # its) s = rx_item it (rx_match its) s"

text \<open>\<^verbatim>\<open>re.search\<close>: the groups and the matched text of the leftmost match.\<close>

fun re_search :: "item list \<Rightarrow> string \<Rightarrow> (string list \<times> string) option" where
  "re_search p [] =
     (case rx_match p [] of None \<Rightarrow> None | Some (groups, rest) \<Rightarrow> Some (groups, []))"
| "re_search p (c # s) =
     (case rx_match p (c # s) of
        None \<Rightarrow> re_search p s
      | Some (groups, rest) \<Rightarrow> Some (groups, take (length (c # s) - length rest) (c # s)))"

subsection \<open>datetime and timedelta\<close>

text \<open>
  A \<^verbatim>\<open>timedelta\<close> is its length in microseconds; its constructor raises OverflowError
  when the number of days exceeds 999999999 in magnitude. A datetime lies between
  0001-01-01T00:00:00 and 9999-12-31T23:59:59.999999; arithmetic that leaves this
  range raises OverflowError.
\<close>

definition us_second :: int where "us_second = 1000000"
definition us_minute :: int where "us_minute = 60 * us_second"
definition us_hour :: int where "us_hour = 60 * us_minute"
definition us_day :: int where "us_day = 24 * us_hour"
definition us_week :: int where "us_week = 7 * us_day"

definition DT_MAX :: instant where
  "DT_MAX = 3652059 * us_day - 1"

definition valid_instant :: "instant \<Rightarrow> bool" where
  "valid_instant t = (0 \<le> t \<and> t \<le> DT_MAX)"

definition timedelta :: "int \<Rightarrow> py_exn + int" where
  "timedelta us = (if \<bar>us div us_day\<bar> > 999999999 then Inl OverflowError else Inr us)"

definition dt_sub :: "instant \<Rightarrow> int \<Rightarrow> py_exn + instant" where
  "dt_sub t d = (if valid_instant (t - d) then Inr (t - d) else Inl OverflowError)"

definition minus_delta :: "instant \<Rightarrow> py_exn + int \<Rightarrow> py_exn + instant option" where
  "minus_delta ref_dt delta =
     (case delta of
        Inl e \<Rightarrow> Inl e
      | Inr d \<Rightarrow> (case dt_sub ref_dt d of Inl e \<Rightarrow> Inl e | Inr t \<Rightarrow> Inr (Some t)))"

text \<open>
  \<^verbatim>\<open>int(s)\<close> on a string of decimal digits. CPython refuses more than 4300 digits
  (the default of \<^verbatim>\<open>sys.get_int_max_str_digits()\<close>) with ValueError.
\<close>

definition int_of_digits :: "string \<Rightarrow> py_exn + int" where
  "int_of_digits ds =
     (if ds = [] \<or> \<not> list_all is_digit ds \<or> length ds > 4300 then Inl ValueError
      else Inr (int (nat_of_digits ds)))"

text \<open>
  \<^verbatim>\<open>int(s)\<close> on any string: surrounding whitespace is dropped, a sign may lead, and
  single underscores may separate digits. The whitespace of \<^verbatim>\<open>int\<close> is narrower than that
  of \<^verbatim>\<open>str.strip\<close>: below code point 128 it is the C whitespace (9 to 13 and 32), so the
  separators 28 to 31 are refused; above, 133 and 160 count as spaces.
\<close>

definition is_int_space :: "char \<Rightarrow> bool" where
  "is_int_space c = ((of_char c :: nat) \<in> {9, 10, 11, 12, 13, 32, 133, 160})"

fun split_on :: "char \<Rightarrow> string \<Rightarrow> string list" where
  "split_on d [] = [[]]"
| "split_on d (c # s) =
     (case split_on d s of
        [] \<Rightarrow> [[c]]
      | p # ps \<Rightarrow> if c = d then [] # p # ps else (c # p) # ps)"

definition int_of_str :: "string \<Rightarrow> py_exn + int" where
  "int_of_str s =
     (let t = rev (dropWhile is_int_space (rev (dropWhile is_int_space s)));
          neg = (t \<noteq> [] \<and> hd t = CHR ''-'');
          body = (if t \<noteq> [] \<and> (hd t = CHR ''-'' \<or> hd t = CHR ''+'') then tl t else t);
          parts = split_on CHR ''_'' body
      in if list_ex (\<lambda>p. p = []) parts then Inl ValueError
         else (case int_of_digits (concat parts) of
                 Inl e \<Rightarrow> Inl e
               | Inr v \<Rightarrow> Inr (if neg then - v else v)))"

fun int_of_float :: "pyfloat \<Rightarrow> py_exn + int" where
  "int_of_float (Fin q) = Inr (if q < 0 then \<lceil>q\<rceil> else \<lfloor>q\<rfloor>)"
| "int_of_float NegZero = Inr 0"
| "int_of_float PInf = Inl OverflowError"
| "int_of_float NInf = Inl OverflowError"
| "int_of_float NaN = Inl ValueError"

fun py_int :: "json \<Rightarrow> py_exn + int" where
  "py_int (JInt n) = Inr n"
| "py_int (JBool b) = Inr (if b then 1 else 0)"
| "py_int (JFloat f) = int_of_float f"
| "py_int (JStr s) = int_of_str s"
| "py_int x = Inl TypeError"

section \<open>time\_utils.parse\_relative\_date\<close>

datatype time_unit = Seconds | Minutes | Hours | Days | Weeks | Months | Years

definition unit_pattern :: "string \<Rightarrow> item list" where
  \<comment> \<open>\<^verbatim>\<open>(\d+)\s*<unit>[s]?\s+ago\<close>\<close>
  "unit_pattern u = [CapPlus Digit, Star Space, Lit u, Opt (OneOf ''s''), Plus Space, Lit ''ago'']"

definition patterns :: "(item list \<times> time_unit) list" where
  "patterns =
     [(unit_pattern ''second'', Seconds),
      (unit_pattern ''minute'', Minutes),
      (unit_pattern ''hour'', Hours),
      (unit_pattern ''day'', Days),
      (unit_pattern ''week'', Weeks),
      (unit_pattern ''month'', Months),
      (unit_pattern ''year'', Years)]"

definition single_pattern :: "string \<Rightarrow> item list" where
  \<comment> \<open>\<^verbatim>\<open>an?\s+<unit>\s+ago\<close>\<close>
  "single_pattern u = [Lit ''a'', Opt (OneOf ''n''), Plus Space, Lit u, Plus Space, Lit ''ago'']"

definition single_patterns :: "(item list \<times> (py_exn + int)) list" where
  "single_patterns =
     [(single_pattern ''second'', timedelta (1 * us_second)),
      (single_pattern ''minute'', timedelta (1 * us_minute)),
      (single_pattern ''hour'', timedelta (1 * us_hour)),
      (single_pattern ''day'', timedelta (1 * us_day)),
      (single_pattern ''week'', timedelta (1 * us_week)),
      (single_pattern ''month'', timedelta (30 * us_day)),
      (single_pattern ''year'', timedelta (365 * us_day))]"

definition unit_delta :: "time_unit \<Rightarrow> int \<Rightarrow> py_exn + int" where
  "unit_delta u v =
     (case u of
        Seconds \<Rightarrow> timedelta (v * us_second)
      | Minutes \<Rightarrow> timedelta (v * us_minute)
      | Hours \<Rightarrow> timedelta (v * us_hour)
      | Days \<Rightarrow> timedelta (v * us_day)
      | Weeks \<Rightarrow> timedelta (v * us_week)
      | Months \<Rightarrow> timedelta ((v * 30) * us_day)
      | Years \<Rightarrow> timedelta ((v * 365) * us_day))"

text \<open>
  The two \<^verbatim>\<open>for\<close> loops: \<open>None\<close> when the loop ends without returning,
  \<open>Some r\<close> when an iteration returns (or raises) \<open>r\<close>.
\<close>

fun quantity_loop :: "(item list \<times> time_unit) list \<Rightarrow> string \<Rightarrow> instant \<Rightarrow> (py_exn + instant option) option" where
  "quantity_loop [] s ref_dt = None"
| "quantity_loop ((p, u) # ps) s ref_dt =
     (case re_search p s of
        None \<Rightarrow> quantity_loop ps s ref_dt
      | Some (groups, whole) \<Rightarrow>
          Some (case int_of_digits (hd groups) of
                  Inl e \<Rightarrow> Inl e
                | Inr v \<Rightarrow> minus_delta ref_dt (unit_delta u v)))"

fun single_loop :: "(item list \<times> (py_exn + int)) list \<Rightarrow> string \<Rightarrow> instant \<Rightarrow> (py_exn + instant option) option" where
  "single_loop [] s ref_dt = None"
| "single_loop ((p, delta) # ps) s ref_dt =
     (case re_search p s of
        None \<Rightarrow> single_loop ps s ref_dt
      | Some m \<Rightarrow> Some (minus_delta ref_dt delta))"

definition reference_instant :: "pylib \<Rightarrow> string option \<Rightarrow> instant" where
  "reference_instant L reference_date =
     (case reference_date of
        None \<Rightarrow> now L
      | Some r \<Rightarrow>
          if r = [] then now L
          else (case fromisoformat L r of Some t \<Rightarrow> t | None \<Rightarrow> now L))"

definition parse_relative_date :: "pylib \<Rightarrow> string \<Rightarrow> string option \<Rightarrow> py_exn + instant option" where
  "parse_relative_date L relative_date reference_date =
     (if relative_date = [] then Inr None
      else
        let ref_dt = reference_instant L reference_date;
            rd = strip (lower relative_date)
        in if rd \<in> set [''just now'', ''now'', ''today''] then Inr (Some ref_dt)
           else if contains ''yesterday'' rd then minus_delta ref_dt (timedelta (1 * us_day))
           else (case quantity_loop patterns rd ref_dt of
                   Some r \<Rightarrow> r
                 | None \<Rightarrow>
                     (case single_loop single_patterns rd ref_dt of
                        Some r \<Rightarrow> r
                      | None \<Rightarrow> Inr None)))"

section \<open>parser.GoogleMapsResponseParser\<close>

definition parse_response :: "pylib \<Rightarrow> string \<Rightarrow> py_exn + json option" where
  "parse_response L response_text =
     (let response_text' =
            (if take 4 response_text = '')]}'' @ [CHR 0x27] then drop 4 response_text
             else response_text)
      in case loads L response_text' of
           Inr data \<Rightarrow> Inr (Some data)
         | Inl e \<Rightarrow> if caught_by [JSONDecodeError] e then Inr None else Inl e)"

definition extract_pagination_token :: "pylib \<Rightarrow> json \<Rightarrow> py_exn + string" where
  "extract_pagination_token L data =
     (case py_len data of
        Inl e \<Rightarrow> Inl e
      | Inr n \<Rightarrow>
          if n > 1 then
            (case py_getitem data 1 of
               Inl e \<Rightarrow> Inl e
             | Inr x \<Rightarrow> if truthy x then Inr (py_str L x) else Inr [])
          else Inr [])"

subsection \<open>extract\_review\_data\<close>

text \<open>
  The result dictionary is created with its fifteen keys and then assigned to key by
  key. A step of the body maps the dictionary to the updated dictionary and to the
  exception it raised, if any; the assignments made before a \<^verbatim>\<open>raise\<close> stay.
\<close>

type_synonym step = "review \<Rightarrow> review \<times> py_exn option"

definition skip :: step where
  "skip result = (result, None)"

definition raise :: "py_exn \<Rightarrow> step" where
  "raise e result = (result, Some e)"

definition assign :: "string \<Rightarrow> py_exn + json option \<Rightarrow> step" where
  \<comment> \<open>\<^verbatim>\<open>result[k] = v\<close>, where computing \<open>v\<close> may raise or find nothing to assign\<close>
  "assign k v result =
     (case v of
        Inl e \<Rightarrow> (result, Some e)
      | Inr None \<Rightarrow> (result, None)
      | Inr (Some x) \<Rightarrow> (AList.update k x result, None))"

fun seq_steps :: "step list \<Rightarrow> step" where
  "seq_steps [] result = (result, None)"
| "seq_steps (s # ss) result =
     (case s result of
        (result', None) \<Rightarrow> seq_steps ss result'
      | (result', Some e) \<Rightarrow> (result', Some e))"

definition dict_get :: "review \<Rightarrow> string \<Rightarrow> json" where
  \<comment> \<open>\<^verbatim>\<open>result[k]\<close> for a key that is present\<close>
  "dict_get result k = (case map_of result k of Some v \<Rightarrow> v | None \<Rightarrow> JNull)"

fun the_str :: "json \<Rightarrow> string" where
  "the_str (JStr s) = s"
| "the_str x = []"

definition default_result :: "pylib \<Rightarrow> review" where
  "default_result L =
     [(''review_id'', JStr []),
      (''user_name'', JStr []),
      (''user_url'', JStr []),
      (''user_reviews'', JInt 0),
      (''rating'', JFloat (Fin 0)),
      (''relative_date'', JStr []),
      (''text'', JStr []),
      (''text_date'', JNull),
      (''translated_text'', JStr []),
      (''likes'', JInt 0),
      (''response_text'', JStr []),
      (''response_relative_date'', JStr []),
      (''response_text_date'', JNull),
      (''translated_response_text'', JStr []),
      (''retrieval_date'', JStr (dt_str L (now L)))]"

text \<open>\<^verbatim>\<open>len(xs) > i and isinstance(xs[i], list)\<close> on a list \<open>xs\<close>.\<close>

definition sub_list :: "json list \<Rightarrow> nat \<Rightarrow> json list option" where
  "sub_list xs i =
     (if length xs > i then (case xs ! i of JArr ys \<Rightarrow> Some ys | _ \<Rightarrow> None) else None)"

text \<open>\<^verbatim>\<open>if len(xs) > i and xs[i]: result[...] = str(xs[i])\<close>\<close>

definition str_value :: "pylib \<Rightarrow> json list \<Rightarrow> nat \<Rightarrow> json option" where
  "str_value L xs i =
     (if length xs > i \<and> truthy (xs ! i) then Some (JStr (py_str L (xs ! i))) else None)"

text \<open>
  The timestamp blocks (metadata[2] and response\_data[1]): the inner
  \<^verbatim>\<open>try\<close> covers the conversion to int, the division and \<^verbatim>\<open>fromtimestamp\<close>, and
  catches ValueError, TypeError and OSError.
\<close>

definition timestamp_value :: "pylib \<Rightarrow> json list \<Rightarrow> nat \<Rightarrow> py_exn + json option" where
  "timestamp_value L xs i =
     (if length xs > i \<and> truthy (xs ! i) then
        (case py_int (xs ! i) of
           Inl e \<Rightarrow> if caught_by [ValueError, TypeError, OSError] e then Inr None else Inl e
         | Inr timestamp \<Rightarrow>
             (case ts_isoformat L timestamp of
                Inl e \<Rightarrow> if caught_by [ValueError, TypeError, OSError] e then Inr None else Inl e
              | Inr iso_text \<Rightarrow> Inr (Some (JStr iso_text))))
      else Inr None)"

definition user_url_value :: "pylib \<Rightarrow> json list \<Rightarrow> json option" where
  "user_url_value L user_info =
     (case sub_list user_info 2 of
        Some u \<Rightarrow> if length u > 0 then Some (JStr (py_str L (u ! 0))) else None
      | None \<Rightarrow> None)"

definition user_reviews_value :: "pylib \<Rightarrow> json list \<Rightarrow> py_exn + json option" where
  "user_reviews_value L user_info =
     (case sub_list user_info 10 of
        Some u \<Rightarrow>
          if length u > 0 then
            (case re_search [CapPlus Digit] (py_str L (u ! 0)) of
               Some (groups, whole) \<Rightarrow>
                 (case int_of_digits (hd groups) of
                    Inl e \<Rightarrow> Inl e
                  | Inr n \<Rightarrow> Inr (Some (JInt n)))
             | None \<Rightarrow> Inr None)
          else Inr None
      | None \<Rightarrow> Inr None)"

definition user_info_steps :: "pylib \<Rightarrow> json list \<Rightarrow> step" where
  "user_info_steps L metadata =
     (case sub_list metadata 4 of
        Some m4 \<Rightarrow>
          if length m4 > 5 then
            (case m4 ! 5 of
               JArr user_info \<Rightarrow>
                 seq_steps [assign ''user_name'' (Inr (str_value L user_info 0)),
                        assign ''user_url'' (Inr (user_url_value L user_info)),
                        assign ''user_reviews'' (user_reviews_value L user_info)]
             | _ \<Rightarrow> skip)
          else skip
      | None \<Rightarrow> skip)"

text \<open>\<^verbatim>\<open>if len(review_array) > i and isinstance(review_array[i], list):\<close> on any value.\<close>

definition list_at :: "json \<Rightarrow> nat \<Rightarrow> py_exn + json list option" where
  "list_at x i =
     (case py_len x of
        Inl e \<Rightarrow> Inl e
      | Inr n \<Rightarrow>
          if n > i then
            (case py_getitem x i of
               Inl e \<Rightarrow> Inl e
             | Inr (JArr ys) \<Rightarrow> Inr (Some ys)
             | Inr _ \<Rightarrow> Inr None)
          else Inr None)"

definition review_id_step :: "pylib \<Rightarrow> json \<Rightarrow> step" where
  "review_id_step L review_array =
     (case py_len review_array of
        Inl e \<Rightarrow> raise e
      | Inr n \<Rightarrow>
          if n > 0 then
            (case py_getitem review_array 0 of
               Inl e \<Rightarrow> raise e
             | Inr x \<Rightarrow>
                 if truthy x then assign ''review_id'' (Inr (Some (JStr (py_str L x)))) else skip)
          else skip)"

definition metadata_step :: "pylib \<Rightarrow> json \<Rightarrow> step" where
  "metadata_step L review_array =
     (case list_at review_array 1 of
        Inl e \<Rightarrow> raise e
      | Inr None \<Rightarrow> skip
      | Inr (Some metadata) \<Rightarrow>
          seq_steps [assign ''text_date'' (timestamp_value L metadata 2),
                 user_info_steps L metadata,
                 assign ''relative_date'' (Inr (str_value L metadata 6))])"

definition rating_value :: "pylib \<Rightarrow> json list \<Rightarrow> py_exn + json option" where
  "rating_value L content =
     (case sub_list content 0 of
        Some c0 \<Rightarrow>
          if length c0 > 0 then
            (case c0 ! 0 of
               JInt n \<Rightarrow> map_sum id (\<lambda>f. Some (JFloat f)) (float_of_int L n)
             | JBool b \<Rightarrow> map_sum id (\<lambda>f. Some (JFloat f)) (float_of_int L (if b then 1 else 0))
             | JFloat f \<Rightarrow> Inr (Some (JFloat f))
             | _ \<Rightarrow> Inr None)
          else Inr None
      | None \<Rightarrow> Inr None)"

text \<open>The text blocks (content[15] and response\_data[14]).\<close>

definition text_value :: "json list \<Rightarrow> nat \<Rightarrow> json option" where
  "text_value xs i =
     (case sub_list xs i of
        Some c \<Rightarrow>
          if length c > 0 then
            (case c ! 0 of
               JArr text_container \<Rightarrow>
                 if length text_container > 0 then
                   (case text_container ! 0 of JStr t \<Rightarrow> Some (JStr t) | _ \<Rightarrow> None)
                 else None
             | _ \<Rightarrow> None)
          else None
      | None \<Rightarrow> None)"

definition content_step :: "pylib \<Rightarrow> json \<Rightarrow> step" where
  "content_step L review_array =
     (case list_at review_array 2 of
        Inl e \<Rightarrow> raise e
      | Inr None \<Rightarrow> skip
      | Inr (Some content) \<Rightarrow>
          seq_steps [assign ''rating'' (rating_value L content),
                 assign ''text'' (Inr (text_value content 15))])"

definition response_step :: "pylib \<Rightarrow> json \<Rightarrow> step" where
  "response_step L review_array =
     (case list_at review_array 3 of
        Inl e \<Rightarrow> raise e
      | Inr None \<Rightarrow> skip
      | Inr (Some response_data) \<Rightarrow>
          seq_steps [assign ''response_text_date'' (timestamp_value L response_data 1),
                 assign ''response_relative_date'' (Inr (str_value L response_data 3)),
                 assign ''response_text'' (Inr (text_value response_data 14))])"

text \<open>
  The fallback to the relative date: its own \<^verbatim>\<open>try\<close> swallows every exception of
  \<^verbatim>\<open>parse_relative_date\<close>.
\<close>

definition fallback_step :: "pylib \<Rightarrow> string \<Rightarrow> string \<Rightarrow> step" where
  "fallback_step L rel_key date_key result =
     (if truthy (dict_get result rel_key) \<and> \<not> truthy (dict_get result date_key) then
        (case parse_relative_date L (the_str (dict_get result rel_key))
                (Some (the_str (dict_get result ''retrieval_date''))) of
           Inl e \<Rightarrow> (result, None)
         | Inr None \<Rightarrow> (result, None)
         | Inr (Some parsed_date) \<Rightarrow>
             (AList.update date_key (JStr (isoformat L parsed_date)) result, None))
      else (result, None))"

definition extract_review_body :: "pylib \<Rightarrow> json \<Rightarrow> review \<times> py_exn option" where
  "extract_review_body L review_array =
     (let result = default_result L
      in if \<not> truthy review_array then (result, None)
         else (case py_len review_array of
                 Inl e \<Rightarrow> (result, Some e)
               | Inr n \<Rightarrow>
                   if n < 2 then (result, None)
                   else seq_steps [review_id_step L review_array,
                               metadata_step L review_array,
                               content_step L review_array,
                               response_step L review_array,
                               fallback_step L ''relative_date'' ''text_date'',
                               fallback_step L ''response_relative_date'' ''response_text_date'']
                          result))"

text \<open>Every class of \<open>py_exn\<close> derives from \<^verbatim>\<open>Exception\<close>.\<close>

fun is_Exception :: "py_exn \<Rightarrow> bool" where
  "is_Exception TypeError = True"
| "is_Exception ValueError = True"
| "is_Exception KeyError = True"
| "is_Exception IndexError = True"
| "is_Exception OverflowError = True"
| "is_Exception OSError = True"
| "is_Exception JSONDecodeError = True"
| "is_Exception RuntimeError = True"
| "is_Exception RequestError = True"

definition extract_review_data :: "pylib \<Rightarrow> json \<Rightarrow> py_exn + review" where
  "extract_review_data L review_array =
     (case extract_review_body L review_array of
        (result, None) \<Rightarrow> Inr result
      | (result, Some e) \<Rightarrow> if is_Exception e then Inr result else Inl e)"

subsection \<open>extract\_reviews\<close>

fun reviews_loop :: "pylib \<Rightarrow> json list \<Rightarrow> py_exn + review list" where
  "reviews_loop L [] = Inr []"
| "reviews_loop L (review_item # items) =
     (case (case review_item of
              JArr ri \<Rightarrow>
                if length ri > 0 then map_sum id (\<lambda>r. [r]) (extract_review_data L (ri ! 0))
                else Inr []
            | _ \<Rightarrow> Inr []) of
        Inl e \<Rightarrow> Inl e
      | Inr rs \<Rightarrow> map_sum id (\<lambda>rest. rs @ rest) (reviews_loop L items))"

definition extract_reviews :: "pylib \<Rightarrow> json \<Rightarrow> py_exn + review list" where
  "extract_reviews L data =
     (case py_len data of
        Inl e \<Rightarrow> Inl e
      | Inr n \<Rightarrow>
          if n > 2 then
            (case py_getitem data 2 of
               Inl e \<Rightarrow> Inl e
             | Inr reviews_array \<Rightarrow>
                 if truthy reviews_array then
                   (case reviews_array of
                      JArr items \<Rightarrow> reviews_loop L items
                    | _ \<Rightarrow> Inr [])
                 else Inr [])
          else Inr [])"

section \<open>scraper.GoogleMapsReviewsScraper\<close>

text \<open>
  The attributes set by \<^verbatim>\<open>__init__\<close> (curl\_cffi is taken to be importable; the logger
  and the progress bar write to the console only and are left out).
\<close>

record scraper =
  proxy :: "string option"
  request_interval :: rat
  n_retries :: int
  retry_time :: rat
  random_impersonate :: bool
  log_level :: string

definition scraper_init ::
  "string option \<Rightarrow> rat \<Rightarrow> int \<Rightarrow> rat \<Rightarrow> bool \<Rightarrow> string \<Rightarrow> scraper" where
  "scraper_init proxy' request_interval' n_retries' retry_time' random_impersonate' log_level' =
     \<lparr>proxy = proxy', request_interval = request_interval', n_retries = n_retries',
      retry_time = retry_time', random_impersonate = random_impersonate',
      log_level = log_level'\<rparr>"

definition feature_id_pattern :: "item list" where
  \<comment> \<open>\<^verbatim>\<open>0[xX][0-9a-fA-F]+:0[xX][0-9a-fA-F]+\<close>\<close>
  "feature_id_pattern =
     [Lit ''0'', One (OneOf ''xX''), Plus Hex, Lit '':'', Lit ''0'', One (OneOf ''xX''), Plus Hex]"

definition parse_url_to_feature_id :: "string \<Rightarrow> string option" where
  "parse_url_to_feature_id url =
     (case re_search feature_id_pattern url of
        Some (groups, whole) \<Rightarrow> Some whole
      | None \<Rightarrow> None)"

subsection \<open>Files\<close>

text \<open>
  The file system maps a path to the text of the file there. \<^verbatim>\<open>open(path, "w")\<close>
  followed by the writer replaces the text; creating directories is not modelled and
  writing is taken to succeed.
\<close>

type_synonym files = "string \<Rightarrow> string option"

definition fieldnames :: "string list" where
  "fieldnames =
     [''review_id'', ''user_name'', ''user_url'', ''user_reviews'',
      ''rating'', ''relative_date'', ''text_date'', ''text'',
      ''response_text'', ''response_relative_date'',
      ''response_text_date'', ''retrieval_date'']"

definition save_to_temp :: "pylib \<Rightarrow> review list \<Rightarrow> string \<Rightarrow> string \<Rightarrow> files \<Rightarrow> files" where
  "save_to_temp L reviews temp_file output_format fs =
     (if output_format = ''json'' then fs(temp_file \<mapsto> json_dump L reviews)
      else if output_format = ''csv'' then
        (if reviews \<noteq> [] then fs(temp_file \<mapsto> csv_write L fieldnames reviews) else fs)
      else fs)"

definition save_final_output :: "pylib \<Rightarrow> review list \<Rightarrow> string \<Rightarrow> string \<Rightarrow> files \<Rightarrow> files" where
  "save_final_output L reviews output_file output_format fs =
     (if output_format = ''json'' then fs(output_file \<mapsto> json_dump L reviews)
      else if output_format = ''csv'' then
        (if reviews \<noteq> [] then fs(output_file \<mapsto> csv_write L fieldnames reviews) else fs)
      else fs)"

definition temp_path :: "string \<Rightarrow> string \<Rightarrow> string" where
  \<comment> \<open>\<^verbatim>\<open>Path.cwd() / "tmp" / f"gmaps_reviews_temp_{feature_id}.{output_format}"\<close>\<close>
  "temp_path feature_id output_format =
     ''tmp/gmaps_reviews_temp_'' @ feature_id @ ''.'' @ output_format"

subsection \<open>scrape\_reviews\<close>

text \<open>
  The \<open>k\<close>-th call of \<^verbatim>\<open>_make_request\<close> returns the response text or raises; the calls of
  one invocation are answered from a script, in order. The invocation's variables are
  the record \<open>vars\<close>; \<open>requests\<close> logs the cursor sent with every request.
\<close>

datatype response = Text string | Fails py_exn

record vars =
  all_reviews :: "review list"
  next_page_token :: string
  fs :: files
  requests :: "string list"

datatype outcome =
    Returned "review list"   \<comment> \<open>\<^verbatim>\<open>return final_reviews\<close>\<close>
  | Raised py_exn            \<comment> \<open>the exception reaches the caller\<close>
  | Pending                  \<comment> \<open>a request was sent and the script holds no response for it\<close>
  | Spinning                 \<comment> \<open>the outer loop repeats without sending a request\<close>

definition opt_truthy :: "int option \<Rightarrow> bool" where
  \<comment> \<open>\<^verbatim>\<open>if n_reviews:\<close>\<close>
  "opt_truthy n = (case n of None \<Rightarrow> False | Some k \<Rightarrow> k \<noteq> 0)"

definition path_truthy :: "string option \<Rightarrow> bool" where
  \<comment> \<open>\<^verbatim>\<open>if output_file:\<close>\<close>
  "path_truthy p = (case p of None \<Rightarrow> False | Some q \<Rightarrow> q \<noteq> [])"

definition slice_to :: "'a list \<Rightarrow> int \<Rightarrow> 'a list" where
  \<comment> \<open>\<^verbatim>\<open>xs[:n]\<close>\<close>
  "slice_to xs n = (if 0 \<le> n then take (nat n) xs else take (nat (int (length xs) + n)) xs)"

definition send :: "vars \<Rightarrow> vars" where
  "send v = v\<lparr>requests := requests v @ [next_page_token v]\<rparr>"

text \<open>
  The body of the inner \<^verbatim>\<open>try\<close> for one response: \<open>None\<close> when it leaves the retry
  loop by \<^verbatim>\<open>break\<close>, \<open>Some e\<close> when it raises \<open>e\<close>.
\<close>

definition try_body :: "pylib \<Rightarrow> string \<Rightarrow> string \<Rightarrow> response \<Rightarrow> vars \<Rightarrow> py_exn option \<times> vars" where
  "try_body L temp_file output_format r v =
     (case r of
        Fails e \<Rightarrow> (Some e, v)
      | Text response_text \<Rightarrow>
          (case parse_response L response_text of
             Inl e \<Rightarrow> (Some e, v)
           | Inr None \<Rightarrow> (None, v)
           | Inr (Some data) \<Rightarrow>
               if \<not> truthy data then (None, v)
               else
                 (case py_len data of
                    Inl e \<Rightarrow> (Some e, v)
                  | Inr n \<Rightarrow>
                      if n < 3 then (None, v)
                      else
                        (case extract_pagination_token L data of
                           Inl e \<Rightarrow> (Some e, v)
                         | Inr token \<Rightarrow>
                             let v1 = v\<lparr>next_page_token := token\<rparr>
                             in (case extract_reviews L data of
                                   Inl e \<Rightarrow> (Some e, v1)
                                 | Inr reviews \<Rightarrow>
                                     let v2 = v1\<lparr>all_reviews := all_reviews v1 @ reviews\<rparr>;
                                         v3 = v2\<lparr>fs := save_to_temp L (all_reviews v2) temp_file
                                                       output_format (fs v2)\<rparr>
                                     in (None, v3))))))"

text \<open>After the outer loop: trim, write the output file, remove the temporary file.\<close>

definition finish ::
  "pylib \<Rightarrow> int option \<Rightarrow> string \<Rightarrow> string option \<Rightarrow> string \<Rightarrow> vars \<Rightarrow> outcome \<times> vars" where
  "finish L n_reviews output_format output_file temp_file v =
     (let final_reviews =
            (if opt_truthy n_reviews then slice_to (all_reviews v) (the n_reviews)
             else all_reviews v);
          fs1 = (if path_truthy output_file
                 then save_final_output L final_reviews (the output_file) output_format (fs v)
                 else fs v);
          fs2 = (if fs1 temp_file \<noteq> None then fs1(temp_file := None) else fs1)
      in (Returned final_reviews, v\<lparr>fs := fs2\<rparr>))"

text \<open>
  The checks after the retry loop; \<open>next_page\<close> is the next iteration of the outer loop.
\<close>

definition after_page ::
  "pylib \<Rightarrow> int option \<Rightarrow> string \<Rightarrow> string option \<Rightarrow> string \<Rightarrow> vars
   \<Rightarrow> (vars \<Rightarrow> outcome \<times> vars) \<Rightarrow> outcome \<times> vars" where
  "after_page L n_reviews output_format output_file temp_file v next_page =
     (if opt_truthy n_reviews \<and> int (length (all_reviews v)) \<ge> the n_reviews
        then finish L n_reviews output_format output_file temp_file v
      else if next_page_token v = [] then finish L n_reviews output_format output_file temp_file v
      else next_page v)"

text \<open>The handler of the inner \<^verbatim>\<open>except\<close> when no retry is left.\<close>

definition on_exhausted :: "pylib \<Rightarrow> string \<Rightarrow> string option \<Rightarrow> vars \<Rightarrow> vars" where
  "on_exhausted L output_format output_file v =
     (if all_reviews v \<noteq> [] \<and> path_truthy output_file
      then v\<lparr>fs := save_final_output L (all_reviews v) (the output_file) output_format (fs v)\<rparr>
      else v)"

text \<open>
  The retry loop of one page, entered with \<open>retries > 0\<close>, followed by the rest of the
  outer loop. Each response of the script answers one request. When \<open>n_retries\<close> is not
  positive the retry loop is skipped; an outer iteration that neither fetches nor
  breaks leaves every variable as it was, so the loop repeats for ever (\<open>Spinning\<close>).
\<close>

fun fetch_loop ::
  "pylib \<Rightarrow> scraper \<Rightarrow> int option \<Rightarrow> string \<Rightarrow> string option \<Rightarrow> string \<Rightarrow> int
   \<Rightarrow> response list \<Rightarrow> vars \<Rightarrow> outcome \<times> vars" where
  "fetch_loop L self n_reviews output_format output_file temp_file retries [] v =
     (Pending, send v)"
| "fetch_loop L self n_reviews output_format output_file temp_file retries (r # script) v =
     (let next_page =
            (\<lambda>v'. if n_retries self > 0
                  then fetch_loop L self n_reviews output_format output_file temp_file
                         (n_retries self) script v'
                  else (Spinning, v'))
      in case try_body L temp_file output_format r (send v) of
           (None, v') \<Rightarrow>
             after_page L n_reviews output_format output_file temp_file v' next_page
         | (Some e, v') \<Rightarrow>
             let retries' = retries - 1
             in if retries' = 0 then (Raised e, on_exhausted L output_format output_file v')
                else if retries' > 0
                  then fetch_loop L self n_reviews output_format output_file temp_file
                         retries' script v'
                else after_page L n_reviews output_format output_file temp_file v' next_page)"

definition scrape_reviews ::
  "pylib \<Rightarrow> scraper \<Rightarrow> string \<Rightarrow> int option \<Rightarrow> string \<Rightarrow> bool \<Rightarrow> string \<Rightarrow> string option
   \<Rightarrow> response list \<Rightarrow> files \<Rightarrow> outcome \<times> vars" where
  "scrape_reviews L self url n_reviews hl verbose output_format output_file script fs0 =
     (let v0 = \<lparr>all_reviews = [], next_page_token = [], fs = fs0, requests = []\<rparr>
      in case parse_url_to_feature_id url of
           None \<Rightarrow> (Raised ValueError, v0)
         | Some feature_id \<Rightarrow>
             let temp_file = temp_path feature_id output_format
             in if n_retries self > 0
                then fetch_loop L self n_reviews output_format output_file temp_file
                       (n_retries self) script v0
                else after_page L n_reviews output_format output_file temp_file v0
                       (\<lambda>v'. (Spinning, v')))"

section \<open>scraper.GoogleMapsReviewsScraperSync\<close>

text \<open>
  Calling an async function yields a coroutine: nothing of its body has run yet.
  \<^verbatim>\<open>asyncio.run\<close> refuses to start when an event loop is already running in the
  calling thread (RuntimeError); otherwise it runs the coroutine to its end and hands on
  what the body returned or raised.
\<close>

datatype 'a coroutine = Coroutine "unit \<Rightarrow> 'a"

definition asyncio_run :: "bool \<Rightarrow> 'a coroutine \<Rightarrow> py_exn + 'a" where
  "asyncio_run loop_running coro =
     (if loop_running then Inl RuntimeError
      else (case coro of Coroutine body \<Rightarrow> Inr (body ())))"

text \<open>
  The wrapper refers to the asynchronous scraper in two places: it calls the class in
  \<^verbatim>\<open>__init__\<close>, with its six parameters passed by keyword, and the method
  \<^verbatim>\<open>scrape_reviews\<close> of the object it holds, with its six arguments in the order of the
  signature. Both are parameters here, \<open>scraper_class\<close> and \<open>method\<close>, so that what is
  proved of the wrapper holds whatever the scraper does with its parameters and
  arguments. \<open>Inl\<close> is an exception of \<^verbatim>\<open>asyncio.run\<close> itself; \<open>Inr\<close> carries what the
  method returned or raised and the effects it had.
\<close>

record 's sync_scraper =
  wrapped :: 's  \<comment> \<open>\<^verbatim>\<open>self._scraper\<close>\<close>

definition sync_init ::
  "(string option \<Rightarrow> rat \<Rightarrow> int \<Rightarrow> rat \<Rightarrow> bool \<Rightarrow> string \<Rightarrow> 's)
   \<Rightarrow> string option \<Rightarrow> rat \<Rightarrow> int \<Rightarrow> rat \<Rightarrow> bool \<Rightarrow> string \<Rightarrow> 's sync_scraper" where
  "sync_init scraper_class proxy' request_interval' n_retries' retry_time' random_impersonate'
       log_level' =
     \<lparr>wrapped = scraper_class proxy' request_interval' n_retries' retry_time'
                  random_impersonate' log_level'\<rparr>"

definition sync_scrape_reviews ::
  "('s \<Rightarrow> string \<Rightarrow> int option \<Rightarrow> string \<Rightarrow> bool \<Rightarrow> string \<Rightarrow> string option \<Rightarrow> 'r)
   \<Rightarrow> bool \<Rightarrow> 's sync_scraper
   \<Rightarrow> string \<Rightarrow> int option \<Rightarrow> string \<Rightarrow> bool \<Rightarrow> string \<Rightarrow> string option \<Rightarrow> py_exn + 'r" where
  "sync_scrape_reviews method loop_running self url n_reviews hl verbose output_format
       output_file =
     asyncio_run loop_running
       (Coroutine (\<lambda>_. method (wrapped self) url n_reviews hl verbose output_format
                           output_file))"

text \<open>
  The method of the asynchronous scraper of this file, where the requests are answered
  by \<open>script\<close> and the files are \<open>fs0\<close> at the start.
\<close>

definition scrape_reviews_under ::
  "pylib \<Rightarrow> response list \<Rightarrow> files \<Rightarrow> scraper
   \<Rightarrow> string \<Rightarrow> int option \<Rightarrow> string \<Rightarrow> bool \<Rightarrow> string \<Rightarrow> string option \<Rightarrow> outcome \<times> vars" where
  "scrape_reviews_under L script fs0 self url n_reviews hl verbose output_format output_file =
     scrape_reviews L self url n_reviews hl verbose output_format output_file script fs0"

section \<open>Notions used to state the properties\<close>

subsection \<open>The relative-date resolver\<close>

text \<open>
  A normalised text is supported when one of the tests of \<^verbatim>\<open>parse_relative_date\<close>
  accepts it: one of the three exact words, the substring \<^verbatim>\<open>yesterday\<close>, or a match of
  one of the fourteen patterns.
\<close>

definition supported :: "string \<Rightarrow> bool" where
  "supported rd =
     (rd \<in> set [''just now'', ''now'', ''today'']
      \<or> contains ''yesterday'' rd
      \<or> list_ex (\<lambda>pu. re_search (fst pu) rd \<noteq> None) patterns
      \<or> list_ex (\<lambda>pd. re_search (fst pd) rd \<noteq> None) single_patterns)"

text \<open>
  The duration a normalised text denotes, in the words of the specification: nothing
  for the three exact words, a day for the substring \<^verbatim>\<open>yesterday\<close>, integer times unit
  for \<^verbatim>\<open><integer> <unit> ago\<close> and one unit for \<^verbatim>\<open>a/an <unit> ago\<close>, where the
  integer patterns go before the singular ones and the first unit in the order
  seconds, minutes, hours, days, weeks, months, years wins. A month is 30 days and a
  year 365 days. A text with an integer of more than 4300 digits denotes no number
  (\<^verbatim>\<open>int\<close> refuses it with ValueError).
\<close>

definition units :: "time_unit list" where
  "units = [Seconds, Minutes, Hours, Days, Weeks, Months, Years]"

definition unit_name :: "time_unit \<Rightarrow> string" where
  "unit_name u =
     (case u of
        Seconds \<Rightarrow> ''second'' | Minutes \<Rightarrow> ''minute'' | Hours \<Rightarrow> ''hour'' | Days \<Rightarrow> ''day''
      | Weeks \<Rightarrow> ''week'' | Months \<Rightarrow> ''month'' | Years \<Rightarrow> ''year'')"

definition unit_us :: "time_unit \<Rightarrow> int" where
  \<comment> \<open>the length of a unit in microseconds\<close>
  "unit_us u =
     (case u of
        Seconds \<Rightarrow> us_second | Minutes \<Rightarrow> us_minute | Hours \<Rightarrow> us_hour | Days \<Rightarrow> us_day
      | Weeks \<Rightarrow> 7 * us_day | Months \<Rightarrow> 30 * us_day | Years \<Rightarrow> 365 * us_day)"

definition quantity_of :: "string \<Rightarrow> (string \<times> time_unit) option" where
  \<comment> \<open>the digits and the unit of \<^verbatim>\<open><integer> <unit> ago\<close>, for the first unit that occurs\<close>
  "quantity_of rd =
     (case filter (\<lambda>u. re_search (unit_pattern (unit_name u)) rd \<noteq> None) units of
        [] \<Rightarrow> None
      | u # us \<Rightarrow>
          (case re_search (unit_pattern (unit_name u)) rd of
             Some (groups, whole) \<Rightarrow> Some (hd groups, u)
           | None \<Rightarrow> None))"

definition single_of :: "string \<Rightarrow> time_unit option" where
  \<comment> \<open>the unit of \<^verbatim>\<open>a/an <unit> ago\<close>, for the first unit that occurs\<close>
  "single_of rd =
     (case filter (\<lambda>u. re_search (single_pattern (unit_name u)) rd \<noteq> None) units of
        [] \<Rightarrow> None
      | u # us \<Rightarrow> Some u)"

definition spec_duration :: "string \<Rightarrow> (py_exn + int) option" where
  "spec_duration rd =
     (if rd \<in> set [''just now'', ''now'', ''today''] then Some (Inr 0)
      else if contains ''yesterday'' rd then Some (Inr us_day)
      else (case quantity_of rd of
              Some (ds, u) \<Rightarrow>
                Some (if length ds > 4300 then Inl ValueError
                      else Inr (int (nat_of_digits ds) * unit_us u))
            | None \<Rightarrow>
                (case single_of rd of
                   Some u \<Rightarrow> Some (Inr (unit_us u))
                 | None \<Rightarrow> None)))"

text \<open>
  The resolver as the amended claim C6 describes it, for a reference instant \<open>T\<close>: none
  for the empty text and for a text that denotes no duration; the instant \<open>d\<close> before
  \<open>T\<close> when that instant is not before 0001-01-01T00:00:00, and OverflowError when it is;
  ValueError for an integer of more than 4300 digits.
\<close>

definition resolve_spec :: "instant \<Rightarrow> string \<Rightarrow> py_exn + instant option" where
  "resolve_spec T text =
     (if text = [] then Inr None
      else (case spec_duration (strip (lower text)) of
              None \<Rightarrow> Inr None
            | Some (Inl e) \<Rightarrow> Inl e
            | Some (Inr d) \<Rightarrow> if d \<le> T then Inr (Some (T - d)) else Inl OverflowError))"

subsection \<open>The record and its fields\<close>

definition field_names :: "string list" where
  "field_names =
     [''review_id'', ''user_name'', ''user_url'', ''user_reviews'', ''rating'',
      ''relative_date'', ''text'', ''text_date'', ''translated_text'', ''likes'',
      ''response_text'', ''response_relative_date'', ''response_text_date'',
      ''translated_response_text'', ''retrieval_date'']"

text \<open>A step keeps the fifteen fields, in their order; a step leaves a field as it is.\<close>

definition keeps_fields :: "step \<Rightarrow> bool" where
  "keeps_fields s =
     (\<forall>result. map fst result = field_names \<longrightarrow> map fst (fst (s result)) = field_names)"

definition leaves :: "string \<Rightarrow> step \<Rightarrow> bool" where
  "leaves k s = (\<forall>result. map_of (fst (s result)) k = map_of result k)"

subsection \<open>The driver\<close>

text \<open>
  A response is a short envelope when it decodes to nothing, to a falsy value, or to a
  value of fewer than three elements: the test of the driver for the end of the results.
\<close>

definition short_envelope :: "pylib \<Rightarrow> string \<Rightarrow> bool" where
  "short_envelope L response_text =
     (case parse_response L response_text of
        Inl e \<Rightarrow> False
      | Inr None \<Rightarrow> True
      | Inr (Some data) \<Rightarrow>
          \<not> truthy data \<or> (case py_len data of Inl e \<Rightarrow> False | Inr n \<Rightarrow> n < 3))"

definition target_met :: "int option \<Rightarrow> vars \<Rightarrow> bool" where
  "target_met n_reviews v = (opt_truthy n_reviews \<and> the n_reviews \<le> int (length (all_reviews v)))"




subsection \<open>A sample library and sample data for the worked examples\<close>

text \<open>
  The formats of \<open>lib0\<close> are stand-ins: a datetime is printed as its number of
  microseconds, and \<open>loads\<close> knows the texts of the examples only.
\<close>

definition sample_page :: json where
  \<comment> \<open>two reviews and the cursor 7\<close>
  "sample_page = JArr [JNull, JInt 7, JArr [JArr [JArr [JInt 1, JArr []]], JArr [JArr [JInt 2, JArr []]]]]"

definition sample_last_page :: json where
  \<comment> \<open>one review and no cursor\<close>
  "sample_last_page = JArr [JNull, JNull, JArr [JArr [JArr [JInt 3, JArr []]]]]"

definition review_with_timestamp :: "json \<Rightarrow> json" where
  \<comment> \<open>the review of the end-to-end scenario, with the given value as its timestamp\<close>
  "review_with_timestamp ts =
     JArr [JStr ''id1'',
           JArr [JStr [], JStr [], ts, JStr [], JStr [], JNull, JStr ''2 weeks ago''],
           JArr [JArr [JFloat (Fin 4)], JNull, JNull, JNull, JNull, JNull, JNull, JNull, JNull,
                 JNull, JNull, JNull, JNull, JNull, JNull,
                 JArr [JArr [JStr ''Great place!'', JNull, JArr [JInt 0, JInt 12]]]]]"

definition lib0 :: pylib where
  "lib0 =
     \<lparr>now = 739616 * us_day,
      dt_str = show_int,
      isoformat = show_int,
      fromisoformat = (\<lambda>s. case int_of_digits s of Inr t \<Rightarrow> Some t | Inl e \<Rightarrow> None),
      ts_isoformat =
        (\<lambda>t. if 10 ^ 24 \<le> \<bar>t\<bar> then Inl OverflowError
             else if t < 0 \<or> DT_MAX < t then Inl ValueError
             else Inr (show_int t)),
      float_repr =
        (\<lambda>f. case f of
               Fin q \<Rightarrow> show_int \<lfloor>q\<rfloor> @ ''.0''
             | NegZero \<Rightarrow> ''-0.0'' | PInf \<Rightarrow> ''inf'' | NInf \<Rightarrow> ''-inf'' | NaN \<Rightarrow> ''nan''),
      float_of_int = (\<lambda>n. if \<bar>n\<bar> < 2 ^ 1024 then Inr (Fin (of_int n)) else Inl OverflowError),
      loads =
        (\<lambda>s. case map_of [(''[null,7,[[[1,[]]],[[2,[]]]]]'', sample_page),
                           (''[null,null,[[[3,[]]]]]'', sample_last_page),
                           (''[]'', JArr [])] s of
               Some data \<Rightarrow> Inr data
             | None \<Rightarrow> Inl JSONDecodeError),
      json_dump = (\<lambda>rs. ''['' @ join '','' (map (\<lambda>r. the_str (dict_get r ''review_id'')) rs) @ '']''),
      csv_write = (\<lambda>header rs. join '','' header @ concat (map (\<lambda>r. ''|'' @ the_str (dict_get r ''review_id'')) rs))\<rparr>"

definition self0 :: scraper where
  "self0 = scraper_init None (2 / 5) 10 30 True ''INFO''"

definition url0 :: string where
  "url0 = ''https://www.google.com/maps/place/x/data=!1s0x89c2:0x1a2b''"

definition no_files :: files where
  "no_files = (\<lambda>p. None)"

section \<open>Properties of the relative-date resolver\<close>

lemma us_nonneg:
  "0 \<le> us_second" "0 \<le> us_minute" "0 \<le> us_hour" "0 \<le> us_day" "0 \<le> us_week"
  by (simp_all add: us_week_def us_day_def us_hour_def us_minute_def us_second_def)

lemma minus_delta_in_range:
  assumes "0 \<le> x" and "x \<le> T" and "valid_instant T"
  shows "minus_delta T (timedelta x) = Inr (Some (T - x))"
proof -
  have "x div us_day \<le> T div us_day"
    using assms(2) by (simp add: zdiv_mono1 us_day_def us_hour_def us_minute_def us_second_def)
  also have "T div us_day \<le> DT_MAX div us_day"
    using assms(3)
    by (simp add: zdiv_mono1 valid_instant_def us_day_def us_hour_def us_minute_def us_second_def)
  also have "DT_MAX div us_day = 3652058"
    by (simp add: DT_MAX_def us_day_def us_hour_def us_minute_def us_second_def)
  finally have "x div us_day \<le> 999999999" by simp
  moreover have "0 \<le> x div us_day"
    using assms(1) by (simp add: pos_imp_zdiv_nonneg_iff us_day_def us_hour_def us_minute_def us_second_def)
  ultimately have "timedelta x = Inr x" by (simp add: timedelta_def)
  moreover have "valid_instant (T - x)"
    using assms by (simp add: valid_instant_def)
  ultimately show ?thesis by (simp add: minus_delta_def dt_sub_def)
qed

text \<open>The resolver on the phrases of the unit tests, for any library and reference.\<close>

lemma resolve_two_weeks:
  "parse_relative_date L ''2 weeks ago'' ref
     = minus_delta (reference_instant L ref) (timedelta (2 * us_week))"
  by (simp add: parse_relative_date_def strip_def lower_def lower_char_def upper_chars_def lower_chars_def is_space_def
      patterns_def unit_pattern_def rx_rep_def is_digit_def int_of_digits_def nat_of_digits_def
      digit_val_def unit_delta_def)

lemma resolve_three_months:
  "parse_relative_date L ''3 months ago'' ref
     = minus_delta (reference_instant L ref) (timedelta ((3 * 30) * us_day))"
  by (simp add: parse_relative_date_def strip_def lower_def lower_char_def upper_chars_def lower_chars_def is_space_def
      patterns_def unit_pattern_def rx_rep_def is_digit_def int_of_digits_def nat_of_digits_def
      digit_val_def unit_delta_def)

lemma resolve_two_years:
  "parse_relative_date L ''2 years ago'' ref
     = minus_delta (reference_instant L ref) (timedelta ((2 * 365) * us_day))"
  by (simp add: parse_relative_date_def strip_def lower_def lower_char_def upper_chars_def lower_chars_def is_space_def
      patterns_def unit_pattern_def rx_rep_def is_digit_def int_of_digits_def nat_of_digits_def
      digit_val_def unit_delta_def)

lemma resolve_a_month:
  "parse_relative_date L ''a month ago'' ref
     = minus_delta (reference_instant L ref) (timedelta (30 * us_day))"
  by (simp add: parse_relative_date_def strip_def lower_def lower_char_def upper_chars_def lower_chars_def is_space_def
      patterns_def single_patterns_def unit_pattern_def single_pattern_def rx_rep_def is_digit_def)

lemma resolve_a_year:
  "parse_relative_date L ''a year ago'' ref
     = minus_delta (reference_instant L ref) (timedelta (365 * us_day))"
  by (simp add: parse_relative_date_def strip_def lower_def lower_char_def upper_chars_def lower_chars_def is_space_def
      patterns_def single_patterns_def unit_pattern_def single_pattern_def rx_rep_def is_digit_def)

lemma resolve_yesterday:
  "parse_relative_date L ''yesterday'' ref
     = minus_delta (reference_instant L ref) (timedelta (1 * us_day))"
  by (simp add: parse_relative_date_def strip_def lower_def lower_char_def upper_chars_def lower_chars_def is_space_def)

lemma resolve_gibberish: "parse_relative_date L ''gibberish'' ref = Inr None"
  by (simp add: parse_relative_date_def strip_def lower_def lower_char_def upper_chars_def lower_chars_def is_space_def
      patterns_def single_patterns_def unit_pattern_def single_pattern_def rx_rep_def is_digit_def)

lemma resolve_many_days:
  "parse_relative_date L ''9999999 days ago'' ref
     = minus_delta (reference_instant L ref) (timedelta (9999999 * us_day))"
  by (simp add: parse_relative_date_def strip_def lower_def lower_char_def upper_chars_def lower_chars_def is_space_def
      patterns_def unit_pattern_def rx_rep_def is_digit_def int_of_digits_def nat_of_digits_def
      digit_val_def unit_delta_def)

lemma lib0_reference: "reference_instant lib0 None = 739616 * us_day"
  by (simp add: reference_instant_def lib0_def)

lemma lib0_reference_valid: "valid_instant (reference_instant lib0 None)"
  by (simp add: lib0_reference valid_instant_def DT_MAX_def us_day_def us_hour_def
      us_minute_def us_second_def)

lemma minus_delta_exact:
  assumes "0 \<le> x" and "valid_instant T"
  shows "minus_delta T (timedelta x) = (if x \<le> T then Inr (Some (T - x)) else Inl OverflowError)"
proof (cases "x \<le> T")
  case True
  then show ?thesis using minus_delta_in_range [OF assms(1) True assms(2)] by simp
next
  case False
  then have "\<not> valid_instant (T - x)" by (simp add: valid_instant_def)
  with False show ?thesis
    by (simp add: minus_delta_def timedelta_def dt_sub_def)
qed

lemma patterns_units: "patterns = map (\<lambda>u. (unit_pattern (unit_name u), u)) units"
  by (simp add: patterns_def units_def unit_name_def)

lemma single_patterns_units:
  "single_patterns = map (\<lambda>u. (single_pattern (unit_name u), timedelta (unit_us u))) units"
  by (simp add: single_patterns_def units_def unit_name_def unit_us_def us_week_def)

lemma unit_delta_us: "unit_delta u v = timedelta (v * unit_us u)"
  by (cases u) (simp_all add: unit_delta_def unit_us_def us_week_def mult.assoc)

lemma unit_us_nonneg: "0 \<le> unit_us u"
  by (cases u) (simp_all add: unit_us_def us_nonneg)

lemma try_down_Some:
  "try_down lo f n = Some r \<Longrightarrow> \<exists>j. lo \<le> j \<and> j \<le> n \<and> f j = Some r"
proof (induction n)
  case 0
  then show ?case by (auto split: if_splits)
next
  case (Suc n)
  show ?case
  proof (cases "f (Suc n)")
    case None
    with Suc.prems have "try_down lo f n = Some r" by (simp split: if_splits)
    from Suc.IH [OF this] show ?thesis by (meson le_Suc_eq)
  next
    case (Some a)
    with Suc.prems have "lo \<le> Suc n" "f (Suc n) = Some r" by (auto split: if_splits)
    then show ?thesis by blast
  qed
qed

lemma re_search_match:
  "re_search p s = Some (groups, whole) \<Longrightarrow> \<exists>t rest. rx_match p t = Some (groups, rest)"
  by (induction p s rule: re_search.induct) (auto split: option.splits)

lemma captured_digits:
  assumes "rx_match (CapPlus Digit # its) t = Some (groups, rest)"
  shows "hd groups \<noteq> [] \<and> list_all is_digit (hd groups)"
proof -
  define run where "run = length (takeWhile is_digit t)"
  define f where "f = (\<lambda>j. case rx_match its (drop j t) of
               None \<Rightarrow> None
             | Some (gs, rest') \<Rightarrow> Some (take j t # gs, rest'))"
  have d: "in_cls Digit = is_digit" by (rule ext) simp
  from assms have "try_down 1 f run = Some (groups, rest)"
    by (simp add: rx_rep_def Let_def run_def f_def d cong: option.case_cong prod.case_cong)
  from try_down_Some [OF this] obtain j where j: "1 \<le> j" "j \<le> run"
    and f: "f j = Some (groups, rest)" by blast
  from f obtain gs where "groups = take j t # gs"
    by (auto simp: f_def split: option.splits)
  then have h: "hd groups = take j t" by simp
  have "t = takeWhile is_digit t @ dropWhile is_digit t" by simp
  then have "take j t = take j (takeWhile is_digit t @ dropWhile is_digit t)" by simp
  also have "\<dots> = take j (takeWhile is_digit t)"
    using j(2) by (simp add: run_def del: takeWhile_dropWhile_id)
  finally have tk: "take j t = take j (takeWhile is_digit t)" .
  have "list_all is_digit (take j (takeWhile is_digit t))"
    by (auto simp: list_all_iff dest!: in_set_takeD set_takeWhileD)
  moreover have "take j (takeWhile is_digit t) \<noteq> []"
    using j by (auto simp: run_def)
  ultimately show ?thesis
    unfolding h tk by simp
qed

lemma unit_pattern_digits:
  assumes "re_search (unit_pattern n) s = Some (groups, whole)"
  shows "int_of_digits (hd groups)
           = (if length (hd groups) > 4300 then Inl ValueError
              else Inr (int (nat_of_digits (hd groups))))"
proof -
  from re_search_match [OF assms] obtain t rest
    where "rx_match (unit_pattern n) t = Some (groups, rest)" by blast
  then have "hd groups \<noteq> [] \<and> list_all is_digit (hd groups)"
    unfolding unit_pattern_def by (rule captured_digits)
  then show ?thesis by (simp add: int_of_digits_def)
qed

lemma quantity_loop_units:
  assumes "valid_instant T"
  shows "quantity_loop (map (\<lambda>u. (unit_pattern (unit_name u), u)) us) s T
     = (case filter (\<lambda>u. re_search (unit_pattern (unit_name u)) s \<noteq> None) us of
          [] \<Rightarrow> None
        | u # us' \<Rightarrow>
            (case re_search (unit_pattern (unit_name u)) s of
               Some (groups, whole) \<Rightarrow>
                 Some (if length (hd groups) > 4300 then Inl ValueError
                       else if int (nat_of_digits (hd groups)) * unit_us u \<le> T
                         then Inr (Some (T - int (nat_of_digits (hd groups)) * unit_us u))
                       else Inl OverflowError)
             | None \<Rightarrow> None))"
proof (induction us)
  case Nil
  then show ?case by simp
next
  case (Cons u us)
  show ?case
  proof (cases "re_search (unit_pattern (unit_name u)) s")
    case None
    with Cons show ?thesis by simp
  next
    case (Some m)
    obtain groups whole where m: "m = (groups, whole)" by (cases m)
    have "0 \<le> int (nat_of_digits (hd groups)) * unit_us u"
      using unit_us_nonneg by simp
    from minus_delta_exact [OF this assms] Some m unit_pattern_digits [of "unit_name u" s groups whole]
    show ?thesis by (simp add: unit_delta_us)
  qed
qed

lemma single_loop_units:
  assumes "valid_instant T"
  shows "single_loop (map (\<lambda>u. (single_pattern (unit_name u), timedelta (unit_us u))) us) s T
     = (case filter (\<lambda>u. re_search (single_pattern (unit_name u)) s \<noteq> None) us of
          [] \<Rightarrow> None
        | u # us' \<Rightarrow> Some (if unit_us u \<le> T then Inr (Some (T - unit_us u))
                           else Inl OverflowError))"
proof (induction us)
  case Nil
  then show ?case by simp
next
  case (Cons u us)
  show ?case
  proof (cases "re_search (single_pattern (unit_name u)) s")
    case None
    with Cons show ?thesis by simp
  next
    case (Some m)
    with minus_delta_exact [OF unit_us_nonneg assms, of u] show ?thesis by simp
  qed
qed

lemma filter_head:
  assumes "filter P xs = u # us"
  shows "P u \<and> u \<in> set xs"
proof -
  from assms have "u \<in> set (filter P xs)" by simp
  then show ?thesis by simp
qed

lemma filter_none: "filter P xs = [] \<longleftrightarrow> \<not> list_ex P xs"
  by (simp add: filter_empty_conv list_ex_iff)

lemma supported_duration: "supported rd \<longleftrightarrow> spec_duration rd \<noteq> None"
proof -
  have q: "list_ex (\<lambda>pu. re_search (fst pu) rd \<noteq> None) patterns \<longleftrightarrow> quantity_of rd \<noteq> None"
  proof (cases "filter (\<lambda>u. re_search (unit_pattern (unit_name u)) rd \<noteq> None) units")
    case Nil
    then show ?thesis
      unfolding patterns_units quantity_of_def
      by (simp add: filter_none list_ex_iff)
  next
    case (Cons u us)
    from filter_head [OF this] Cons show ?thesis
      unfolding patterns_units quantity_of_def
      by (auto simp: list_ex_iff)
  qed
  have s: "list_ex (\<lambda>pd. re_search (fst pd) rd \<noteq> None) single_patterns \<longleftrightarrow> single_of rd \<noteq> None"
  proof (cases "filter (\<lambda>u. re_search (single_pattern (unit_name u)) rd \<noteq> None) units")
    case Nil
    then show ?thesis
      unfolding single_patterns_units single_of_def
      by (simp add: filter_none list_ex_iff)
  next
    case (Cons u us)
    from filter_head [OF this] Cons show ?thesis
      unfolding single_patterns_units single_of_def
      by (auto simp: list_ex_iff)
  qed
  show ?thesis
    unfolding supported_def q s spec_duration_def
    by (auto split: option.splits)
qed

text \<open>
  Claim C6, as amended. For every text and reference instant \<open>T\<close>, \<^verbatim>\<open>parse_relative_date\<close>
  returns none exactly when the text is empty or, once lowered and stripped, matches no
  supported pattern. For a supported text that denotes the duration \<open>d\<close> it returns
  exactly the instant \<open>d\<close> before \<open>T\<close> when that instant is a datetime, and raises
  OverflowError when it would lie before 0001-01-01T00:00:00; it raises ValueError when
  the integer of the text has more than 4300 digits. So it can raise, and does for
  large quantities.
\<close>

theorem parse_relative_date_outcomes:
  assumes "valid_instant (reference_instant L reference_date)"
  shows "parse_relative_date L text reference_date
           = resolve_spec (reference_instant L reference_date) text
       \<and> (parse_relative_date L text reference_date = Inr None
            \<longleftrightarrow> text = [] \<or> \<not> supported (strip (lower text)))"
proof -
  define T where "T = reference_instant L reference_date"
  define rd where "rd = strip (lower text)"
  have valid: "valid_instant T" using assms by (simp add: T_def)
  have T0: "0 \<le> T" using valid by (simp add: valid_instant_def)
  have day: "minus_delta T (timedelta (1 * us_day))
               = (if us_day \<le> T then Inr (Some (T - us_day)) else Inl OverflowError)"
    using minus_delta_exact [OF _ valid, of us_day] us_nonneg by simp
  have eq: "parse_relative_date L text reference_date = resolve_spec T text"
  proof (cases "text = []")
    case True
    then show ?thesis by (simp add: parse_relative_date_def resolve_spec_def)
  next
    case False
    then show ?thesis
      unfolding parse_relative_date_def resolve_spec_def Let_def T_def [symmetric]
        rd_def [symmetric] spec_duration_def quantity_of_def single_of_def
        patterns_units single_patterns_units
        quantity_loop_units [OF valid] single_loop_units [OF valid]
      using T0 day
      by (auto split: list.splits option.splits)
  qed
  have "resolve_spec T text = Inr None \<longleftrightarrow> text = [] \<or> spec_duration rd = None"
    by (auto simp: resolve_spec_def rd_def split: option.splits sum.splits)
  with eq show ?thesis
    unfolding T_def rd_def supported_duration by simp
qed

theorem parse_relative_date_outcomes_witness:
  "valid_instant (reference_instant lib0 None)
   \<and> parse_relative_date lib0 ''2 weeks ago'' None = Inr (Some (739602 * us_day))
   \<and> resolve_spec (739616 * us_day) ''2 weeks ago'' = Inr (Some (739602 * us_day))
   \<and> supported (strip (lower ''2 weeks ago''))"
proof -
  have v: "parse_relative_date lib0 ''2 weeks ago'' None = Inr (Some (739602 * us_day))"
    unfolding resolve_two_weeks lib0_reference
    by (simp add: minus_delta_def timedelta_def dt_sub_def valid_instant_def DT_MAX_def
        us_week_def us_day_def us_hour_def us_minute_def us_second_def)
  from parse_relative_date_outcomes [OF lib0_reference_valid, of "''2 weeks ago''"] v
    lib0_reference_valid
  show ?thesis by (simp add: lib0_reference)
qed

text \<open>
  Claim C6 as stated fails: ten million days before any datetime lies before year 1,
  and the subtraction raises OverflowError.
\<close>

theorem parse_relative_date_raises_counterexample:
  "valid_instant (reference_instant lib0 None)
   \<and> parse_relative_date lib0 ''9999999 days ago'' None = Inl OverflowError"
  unfolding resolve_many_days lib0_reference
  by (simp add: minus_delta_def timedelta_def dt_sub_def valid_instant_def DT_MAX_def
      us_day_def us_hour_def us_minute_def us_second_def)

text \<open>
  Claim C7, as amended. Let \<open>T\<close> be the reference instant. Whenever \<open>T\<close> lies at least
  the stated duration after 0001-01-01T00:00:00, the resolver returns exactly \<open>T\<close> minus
  14 days for "2 weeks ago", minus 30 days for "a month ago" and minus 1 day for
  "yesterday"; a month counts 30 days and a year 365 days ("3 months ago" is 90 days,
  "a year ago" 365 days, "2 years ago" 730 days); the empty text and "gibberish" give none.
\<close>

theorem resolve_unit_tests:
  assumes "valid_instant T" and "reference_instant L reference_date = T"
  shows "(14 * us_day \<le> T \<longrightarrow>
            parse_relative_date L ''2 weeks ago'' reference_date = Inr (Some (T - 14 * us_day)))
       \<and> (30 * us_day \<le> T \<longrightarrow>
            parse_relative_date L ''a month ago'' reference_date = Inr (Some (T - 30 * us_day)))
       \<and> (1 * us_day \<le> T \<longrightarrow>
            parse_relative_date L ''yesterday'' reference_date = Inr (Some (T - 1 * us_day)))
       \<and> (90 * us_day \<le> T \<longrightarrow>
            parse_relative_date L ''3 months ago'' reference_date = Inr (Some (T - 90 * us_day)))
       \<and> (365 * us_day \<le> T \<longrightarrow>
            parse_relative_date L ''a year ago'' reference_date = Inr (Some (T - 365 * us_day)))
       \<and> (730 * us_day \<le> T \<longrightarrow>
            parse_relative_date L ''2 years ago'' reference_date = Inr (Some (T - 730 * us_day)))
       \<and> parse_relative_date L [] reference_date = Inr None
       \<and> parse_relative_date L ''gibberish'' reference_date = Inr None"
proof -
  have d: "0 \<le> c * us_day" if "0 \<le> c" for c
    using that us_nonneg by simp
  have w: "2 * us_week = 14 * us_day"
    by (simp add: us_week_def)
  have "parse_relative_date L ''2 weeks ago'' reference_date = Inr (Some (T - 14 * us_day))"
    if "14 * us_day \<le> T"
    unfolding resolve_two_weeks assms(2) w
    using minus_delta_in_range [OF d that assms(1)] by simp
  moreover
  have "parse_relative_date L ''a month ago'' reference_date = Inr (Some (T - 30 * us_day))"
    if "30 * us_day \<le> T"
    unfolding resolve_a_month assms(2)
    using minus_delta_in_range [OF d that assms(1)] by simp
  moreover
  have "parse_relative_date L ''yesterday'' reference_date = Inr (Some (T - 1 * us_day))"
    if "1 * us_day \<le> T"
    unfolding resolve_yesterday assms(2)
    using minus_delta_in_range [OF d that assms(1)] by simp
  moreover
  have "parse_relative_date L ''3 months ago'' reference_date = Inr (Some (T - 90 * us_day))"
    if "90 * us_day \<le> T"
    unfolding resolve_three_months assms(2)
    using minus_delta_in_range [OF d, of 90 T] that assms(1) by simp
  moreover
  have "parse_relative_date L ''a year ago'' reference_date = Inr (Some (T - 365 * us_day))"
    if "365 * us_day \<le> T"
    unfolding resolve_a_year assms(2)
    using minus_delta_in_range [OF d that assms(1)] by simp
  moreover
  have "parse_relative_date L ''2 years ago'' reference_date = Inr (Some (T - 730 * us_day))"
    if "730 * us_day \<le> T"
    unfolding resolve_two_years assms(2)
    using minus_delta_in_range [OF d, of 730 T] that assms(1) by simp
  moreover
  have "parse_relative_date L [] reference_date = Inr None"
    by (simp add: parse_relative_date_def)
  ultimately show ?thesis
    using resolve_gibberish by blast
qed

theorem resolve_unit_tests_witness:
  "valid_instant (739616 * us_day)
   \<and> reference_instant lib0 None = 739616 * us_day
   \<and> parse_relative_date lib0 ''2 weeks ago'' None = Inr (Some (739616 * us_day - 14 * us_day))
   \<and> parse_relative_date lib0 ''a month ago'' None = Inr (Some (739616 * us_day - 30 * us_day))
   \<and> parse_relative_date lib0 ''yesterday'' None = Inr (Some (739616 * us_day - 1 * us_day))
   \<and> parse_relative_date lib0 ''3 months ago'' None = Inr (Some (739616 * us_day - 90 * us_day))
   \<and> parse_relative_date lib0 ''a year ago'' None = Inr (Some (739616 * us_day - 365 * us_day))
   \<and> parse_relative_date lib0 ''2 years ago'' None = Inr (Some (739616 * us_day - 730 * us_day))
   \<and> parse_relative_date lib0 [] None = Inr None
   \<and> parse_relative_date lib0 ''gibberish'' None = Inr None"
proof -
  have v: "valid_instant (739616 * us_day)"
    using lib0_reference_valid by (simp add: lib0_reference)
  have "14 * us_day \<le> 739616 * us_day" "30 * us_day \<le> 739616 * us_day"
    "1 * us_day \<le> 739616 * us_day" "90 * us_day \<le> 739616 * us_day"
    "365 * us_day \<le> 739616 * us_day" "730 * us_day \<le> 739616 * us_day"
    using us_nonneg by simp_all
  with resolve_unit_tests [OF v lib0_reference] v lib0_reference show ?thesis
    by blast
qed

text \<open>
  Claim C7 as stated fails at the first instant of the range: the day before
  0001-01-01T00:00:00 is no datetime, and "yesterday" raises OverflowError there.
\<close>

theorem resolve_yesterday_counterexample:
  "valid_instant 0
   \<and> reference_instant (lib0\<lparr>now := 0\<rparr>) None = 0
   \<and> parse_relative_date (lib0\<lparr>now := 0\<rparr>) ''yesterday'' None = Inl OverflowError"
proof -
  have r: "reference_instant (lib0\<lparr>now := 0\<rparr>) None = 0"
    by (simp add: reference_instant_def)
  have "valid_instant 0"
    by (simp add: valid_instant_def DT_MAX_def us_day_def us_hour_def us_minute_def us_second_def)
  moreover have "parse_relative_date (lib0\<lparr>now := 0\<rparr>) ''yesterday'' None = Inl OverflowError"
    unfolding resolve_yesterday r
    by (simp add: minus_delta_def timedelta_def dt_sub_def valid_instant_def DT_MAX_def
        us_day_def us_hour_def us_minute_def us_second_def)
  ultimately show ?thesis using r by simp
qed

section \<open>Properties of the cursor, the checkpoint and the blocking wrapper\<close>

lemma show_nat_nonempty: "show_nat n \<noteq> []"
  by (subst show_nat.simps) simp

lemma show_int_nonempty: "show_int i \<noteq> []"
  by (simp add: show_int_def show_nat_nonempty)

lemma py_str_nonempty:
  assumes "\<forall>f. float_repr L f \<noteq> []" and "truthy x"
  shows "py_str L x \<noteq> []"
  using assms by (cases x) (auto simp: py_str_def show_int_nonempty)

lemma lib0_float_repr_nonempty: "\<forall>f. float_repr lib0 f \<noteq> []"
proof
  fix f show "float_repr lib0 f \<noteq> []"
    by (cases f) (simp_all add: lib0_def)
qed

text \<open>
  Claim C8. On an envelope, that is a decoded top-level array, \<^verbatim>\<open>extract_pagination_token\<close>
  does not raise and returns the stringification of the second element when that
  element exists and is truthy, and the empty string otherwise. As the string of a
  truthy value is not empty (for a float this is a fact of \<^verbatim>\<open>repr\<close>, taken from the
  library), the result is empty exactly when the envelope has fewer than two elements
  or the element is falsy.
\<close>

theorem extract_cursor_of_envelope:
  "extract_pagination_token L (JArr xs)
     = Inr (if 1 < length xs \<and> truthy (xs ! 1) then py_str L (xs ! 1) else [])
   \<and> ((\<forall>f. float_repr L f \<noteq> []) \<longrightarrow>
        (extract_pagination_token L (JArr xs) = Inr [] \<longleftrightarrow> length xs < 2 \<or> \<not> truthy (xs ! 1)))"
proof -
  have eq: "extract_pagination_token L (JArr xs)
     = Inr (if 1 < length xs \<and> truthy (xs ! 1) then py_str L (xs ! 1) else [])"
    by (simp add: extract_pagination_token_def)
  have "extract_pagination_token L (JArr xs) = Inr [] \<longleftrightarrow> length xs < 2 \<or> \<not> truthy (xs ! 1)"
    if "\<forall>f. float_repr L f \<noteq> []"
    using py_str_nonempty [OF that, of "xs ! 1"] by (auto simp: eq)
  with eq show ?thesis by blast
qed

theorem extract_cursor_of_envelope_witness:
  "(\<forall>f. float_repr lib0 f \<noteq> [])
   \<and> extract_pagination_token lib0 (JArr [JNull, JStr ''TOKEN123'', JArr []]) = Inr ''TOKEN123''
   \<and> extract_pagination_token lib0 (JArr [JNull, JNull, JArr []]) = Inr []
   \<and> extract_pagination_token lib0 (JArr [JNull]) = Inr []
   \<and> extract_pagination_token lib0 sample_page = Inr ''7''"
  using extract_cursor_of_envelope [of lib0 "[JNull, JStr ''TOKEN123'', JArr []]"]
    extract_cursor_of_envelope [of lib0 "[JNull, JNull, JArr []]"]
    extract_cursor_of_envelope [of lib0 "[JNull]"]
    extract_cursor_of_envelope [of lib0 "[JNull, JInt 7, JArr [JArr [JArr [JInt 1, JArr []]], JArr [JArr [JInt 2, JArr []]]]]"]
    lib0_float_repr_nonempty
  by (simp add: py_str_def sample_page_def show_int_def)

text \<open>
  Claim C9. The checkpoint written by \<^verbatim>\<open>_save_to_temp\<close> is a function of the record
  list and the format: a second call with the same accumulator leaves every file as the
  first call left it, and the text at the path is the JSON dump of the list, or the
  CSV text of a non-empty list (for an empty list in CSV format and for any other
  format no file is written).
\<close>

theorem checkpoint_twice_same_bytes:
  "save_to_temp L reviews temp_file output_format
       (save_to_temp L reviews temp_file output_format files0)
     = save_to_temp L reviews temp_file output_format files0
   \<and> save_to_temp L reviews temp_file output_format files0 temp_file
       = (if output_format = ''json'' then Some (json_dump L reviews)
          else if output_format = ''csv'' \<and> reviews \<noteq> []
            then Some (csv_write L fieldnames reviews)
          else files0 temp_file)"
  by (simp add: save_to_temp_def)

theorem checkpoint_twice_same_bytes_witness:
  "save_to_temp lib0 [default_result lib0] ''tmp/t.json'' ''json''
       (save_to_temp lib0 [default_result lib0] ''tmp/t.json'' ''json'' no_files) ''tmp/t.json''
     = Some (json_dump lib0 [default_result lib0])
   \<and> save_to_temp lib0 [] ''tmp/t.csv'' ''csv''
       (save_to_temp lib0 [] ''tmp/t.csv'' ''csv'' no_files) ''tmp/t.csv'' = None"
  using checkpoint_twice_same_bytes [of lib0 "[default_result lib0]" "''tmp/t.json''" "''json''" no_files]
    checkpoint_twice_same_bytes [of lib0 "[]" "''tmp/t.csv''" "''csv''" no_files]
  by (simp add: no_files_def)

text \<open>
  Claim C10, as amended. For all constructor parameters and all arguments, and whatever
  the asynchronous scraper does with them, the blocking wrapper called outside a
  running event loop hands on exactly what the method \<^verbatim>\<open>scrape_reviews\<close> of the scraper
  built from the same parameters returns or raises for the same arguments, with the
  same effects; called inside a running event loop it raises RuntimeError and the
  method does not run. In particular this holds of the asynchronous scraper of this
  file, under the same responses of the server and the same files.
\<close>

theorem sync_wrapper_same_as_async:
  "sync_scrape_reviews method loop_running
       (sync_init scraper_class proxy' request_interval' n_retries' retry_time'
          random_impersonate' log_level')
       url n_reviews hl verbose output_format output_file
     = (if loop_running then Inl RuntimeError
        else Inr (method
                    (scraper_class proxy' request_interval' n_retries' retry_time'
                       random_impersonate' log_level')
                    url n_reviews hl verbose output_format output_file))
   \<and> sync_scrape_reviews (scrape_reviews_under L script files0) loop_running
       (sync_init scraper_init proxy' request_interval' n_retries' retry_time'
          random_impersonate' log_level')
       url n_reviews hl verbose output_format output_file
     = (if loop_running then Inl RuntimeError
        else Inr (scrape_reviews L
                    (scraper_init proxy' request_interval' n_retries' retry_time'
                       random_impersonate' log_level')
                    url n_reviews hl verbose output_format output_file script files0))"
  by (simp add: sync_scrape_reviews_def sync_init_def asyncio_run_def scrape_reviews_under_def)

section \<open>Properties of the pagination driver\<close>

lemma try_body_requests:
  "try_body L temp_file output_format r v = (x, v') \<Longrightarrow> requests v' = requests v"
  by (auto simp: try_body_def Let_def split: response.splits sum.splits option.splits if_splits)

lemma finish_outcome:
  "fst (finish L n_reviews output_format output_file temp_file v)
     = Returned (if opt_truthy n_reviews then slice_to (all_reviews v) (the n_reviews)
                 else all_reviews v)"
  by (simp add: finish_def Let_def)

lemma finish_requests:
  "requests (snd (finish L n_reviews output_format output_file temp_file v)) = requests v"
  by (simp add: finish_def Let_def)

lemma try_body_short:
  "short_envelope L response_text
   \<Longrightarrow> try_body L temp_file output_format (Text response_text) v = (None, v)"
  by (auto simp: short_envelope_def try_body_def split: sum.splits option.splits)

text \<open>
  What the driver does after a short envelope: it returns the accumulator when the
  target is met or the cursor is empty, and otherwise goes on to the next iteration
  of the outer loop with the cursor of the page before.
\<close>

lemma short_envelope_then:
  assumes "short_envelope L response_text" and "0 < n_retries self"
  shows "fetch_loop L self n_reviews output_format output_file temp_file retries
           (Text response_text # script) v
         = (if target_met n_reviews (send v) \<or> next_page_token v = []
            then finish L n_reviews output_format output_file temp_file (send v)
            else fetch_loop L self n_reviews output_format output_file temp_file
                   (n_retries self) script (send v))"
  using assms try_body_short [OF assms(1), of temp_file output_format "send v"]
  by (simp add: after_page_def target_met_def send_def)

lemma lib0_loads_page: "parse_response lib0 ''[null,7,[[[1,[]]],[[2,[]]]]]'' = Inr (Some sample_page)"
  by (simp add: parse_response_def lib0_def)

lemma lib0_loads_empty: "parse_response lib0 ''[]'' = Inr (Some (JArr []))"
  by (simp add: parse_response_def lib0_def)

lemma lib0_short_empty: "short_envelope lib0 ''[]''"
  by (simp add: short_envelope_def lib0_loads_empty)

lemma url0_feature_id: "parse_url_to_feature_id url0 = Some ''0x89c2:0x1a2b''"
  by (simp add: parse_url_to_feature_id_def url0_def feature_id_pattern_def rx_rep_def
      is_hex_def is_digit_def)

lemma self0_retries: "n_retries self0 = 10"
  by (simp add: self0_def scraper_init_def)

lemma sample_page_token: "extract_pagination_token lib0 sample_page = Inr ''7''"
  by (simp add: extract_pagination_token_def sample_page_def py_str_def show_int_def)

lemma sample_review_1:
  "extract_review_data L (JArr [JInt 1, JArr []])
     = Inr (AList.update ''review_id'' (JStr ''1'') (default_result L))"
  by (simp add: extract_review_data_def extract_review_body_def review_id_step_def
      metadata_step_def content_step_def response_step_def fallback_step_def list_at_def
      assign_def skip_def str_value_def timestamp_value_def user_info_steps_def sub_list_def
      py_str_def show_int_def default_result_def dict_get_def)

lemma sample_review_2:
  "extract_review_data L (JArr [JInt 2, JArr []])
     = Inr (AList.update ''review_id'' (JStr ''2'') (default_result L))"
  by (simp add: extract_review_data_def extract_review_body_def review_id_step_def
      metadata_step_def content_step_def response_step_def fallback_step_def list_at_def
      assign_def skip_def str_value_def timestamp_value_def user_info_steps_def sub_list_def
      py_str_def show_int_def default_result_def dict_get_def)

lemma sample_page_reviews:
  "extract_reviews L sample_page
     = Inr [AList.update ''review_id'' (JStr ''1'') (default_result L),
            AList.update ''review_id'' (JStr ''2'') (default_result L)]"
  by (simp add: extract_reviews_def sample_page_def sample_review_1 sample_review_2)

lemma sample_page_sized: "truthy sample_page" "py_len sample_page = Inr 3"
  by (simp_all add: sample_page_def)

lemma sample_page_try_body:
  "try_body lib0 temp_file output_format (Text ''[null,7,[[[1,[]]],[[2,[]]]]]'') v
     = (None,
        v\<lparr>next_page_token := ''7'',
           all_reviews := all_reviews v @
             [AList.update ''review_id'' (JStr ''1'') (default_result lib0),
              AList.update ''review_id'' (JStr ''2'') (default_result lib0)],
           fs := save_to_temp lib0
                   (all_reviews v @
                     [AList.update ''review_id'' (JStr ''1'') (default_result lib0),
                      AList.update ''review_id'' (JStr ''2'') (default_result lib0)])
                   temp_file output_format (fs v)\<rparr>)"
  by (simp add: try_body_def lib0_loads_page sample_page_sized sample_page_token
      sample_page_reviews)

lemma sample_page_continues:
  assumes "\<not> opt_truthy n_reviews \<or> int (length (all_reviews v)) + 2 < the n_reviews"
  shows "fetch_loop lib0 self0 n_reviews output_format output_file temp_file retries
           (Text ''[null,7,[[[1,[]]],[[2,[]]]]]'' # script) v
         = fetch_loop lib0 self0 n_reviews output_format output_file temp_file 10 script
             ((send v)\<lparr>next_page_token := ''7'',
                all_reviews := all_reviews v @
                  [AList.update ''review_id'' (JStr ''1'') (default_result lib0),
                   AList.update ''review_id'' (JStr ''2'') (default_result lib0)],
                fs := save_to_temp lib0
                        (all_reviews v @
                          [AList.update ''review_id'' (JStr ''1'') (default_result lib0),
                           AList.update ''review_id'' (JStr ''2'') (default_result lib0)])
                        temp_file output_format (fs v)\<rparr>)"
  using assms
  by (auto simp: sample_page_try_body after_page_def self0_retries send_def)

text \<open>
  Claim C1, the code at the failing input. The first page brings two records and the
  cursor 7; the second response is the empty envelope. The driver does not return: it
  sends a third request, again with the cursor 7.
\<close>

theorem short_envelope_stale_cursor_refetch:
  "fst (scrape_reviews lib0 self0 url0 None ''en'' True ''json'' None
          [Text ''[null,7,[[[1,[]]],[[2,[]]]]]'', Text ''[]''] no_files) = Pending
   \<and> requests (snd (scrape_reviews lib0 self0 url0 None ''en'' True ''json'' None
          [Text ''[null,7,[[[1,[]]],[[2,[]]]]]'', Text ''[]''] no_files)) = [[], ''7'', ''7'']"
proof -
  have r: "0 < n_retries self0"
    by (simp add: self0_retries)
  show ?thesis
    unfolding scrape_reviews_def url0_feature_id
    by (simp add: self0_retries sample_page_continues opt_truthy_def
        short_envelope_then [OF lib0_short_empty r] target_met_def send_def
        del: fetch_loop.simps(2))
qed

text \<open>
  Claim C3, as amended. In an invocation with a positive target count \<open>n\<close>, let a
  response end the retry loop with at least \<open>n\<close> records accumulated. Then the
  invocation returns the first \<open>n\<close> records of the accumulator, exactly \<open>n\<close> of them, and
  the request for that response was its last: what the script holds after it is never
  asked for.
\<close>

theorem target_reached_stops_and_trims:
  assumes "n_reviews = Some n" and "0 < n"
    and "try_body L temp_file output_format r (send v) = (None, v')"
    and "n \<le> int (length (all_reviews v'))"
  shows "fst (fetch_loop L self n_reviews output_format output_file temp_file retries
               (r # script) v) = Returned (take (nat n) (all_reviews v'))
       \<and> int (length (take (nat n) (all_reviews v'))) = n
       \<and> requests (snd (fetch_loop L self n_reviews output_format output_file temp_file retries
               (r # script) v)) = requests v @ [next_page_token v]"
proof -
  have t: "opt_truthy n_reviews" "the n_reviews = n"
    using assms(1,2) by (simp_all add: opt_truthy_def)
  have f: "fetch_loop L self n_reviews output_format output_file temp_file retries (r # script) v
             = finish L n_reviews output_format output_file temp_file v'"
    using assms(3,4) t by (simp add: after_page_def)
  have "requests v' = requests (send v)"
    using try_body_requests [OF assms(3)] .
  then have "requests v' = requests v @ [next_page_token v]"
    by (simp add: send_def)
  moreover have "slice_to (all_reviews v') n = take (nat n) (all_reviews v')"
    using assms(2) by (simp add: slice_to_def)
  moreover have "int (length (take (nat n) (all_reviews v'))) = n"
    using assms(2,4) by simp
  ultimately show ?thesis
    unfolding f by (simp add: finish_outcome finish_requests t)
qed

theorem target_reached_stops_and_trims_witness:
  "fst (scrape_reviews lib0 self0 url0 (Some 1) ''en'' True ''json'' None
          [Text ''[null,7,[[[1,[]]],[[2,[]]]]]'', Text ''[null,7,[[[1,[]]],[[2,[]]]]]''] no_files)
     = Returned [AList.update ''review_id'' (JStr ''1'') (default_result lib0)]
   \<and> requests (snd (scrape_reviews lib0 self0 url0 (Some 1) ''en'' True ''json'' None
          [Text ''[null,7,[[[1,[]]],[[2,[]]]]]'', Text ''[null,7,[[[1,[]]],[[2,[]]]]]''] no_files))
     = [[]]"
proof -
  define v0 where "v0 = \<lparr>all_reviews = [], next_page_token = [], fs = no_files, requests = []\<rparr>"
  define temp where "temp = temp_path ''0x89c2:0x1a2b'' ''json''"
  define v1 where "v1 = (send v0)\<lparr>next_page_token := ''7'',
      all_reviews := all_reviews (send v0) @
        [AList.update ''review_id'' (JStr ''1'') (default_result lib0),
         AList.update ''review_id'' (JStr ''2'') (default_result lib0)],
      fs := save_to_temp lib0
              (all_reviews (send v0) @
                [AList.update ''review_id'' (JStr ''1'') (default_result lib0),
                 AList.update ''review_id'' (JStr ''2'') (default_result lib0)])
              temp ''json'' (fs (send v0))\<rparr>"
  have b: "try_body lib0 temp ''json'' (Text ''[null,7,[[[1,[]]],[[2,[]]]]]'') (send v0) = (None, v1)"
    unfolding v1_def by (rule sample_page_try_body)
  have l: "(1::int) \<le> int (length (all_reviews v1))"
    by (simp add: v1_def v0_def send_def)
  have s: "scrape_reviews lib0 self0 url0 (Some 1) ''en'' True ''json'' None
             [Text ''[null,7,[[[1,[]]],[[2,[]]]]]'', Text ''[null,7,[[[1,[]]],[[2,[]]]]]''] no_files
           = fetch_loop lib0 self0 (Some 1) ''json'' None temp 10
               (Text ''[null,7,[[[1,[]]],[[2,[]]]]]'' # [Text ''[null,7,[[[1,[]]],[[2,[]]]]]'']) v0"
    by (simp add: scrape_reviews_def url0_feature_id self0_retries v0_def temp_def
        del: fetch_loop.simps)
  from target_reached_stops_and_trims [OF refl _ b l, of self0 None 10
      "[Text ''[null,7,[[[1,[]]],[[2,[]]]]]'']"]
  show ?thesis
    unfolding s by (simp add: v1_def v0_def send_def)
qed

lemma lib0_loads_last_page:
  "parse_response lib0 ''[null,null,[[[3,[]]]]]'' = Inr (Some sample_last_page)"
  by (simp add: parse_response_def lib0_def)

lemma sample_review_3:
  "extract_review_data L (JArr [JInt 3, JArr []])
     = Inr (AList.update ''review_id'' (JStr ''3'') (default_result L))"
  by (simp add: extract_review_data_def extract_review_body_def review_id_step_def
      metadata_step_def content_step_def response_step_def fallback_step_def list_at_def
      assign_def skip_def str_value_def timestamp_value_def user_info_steps_def sub_list_def
      py_str_def show_int_def default_result_def dict_get_def)

lemma sample_last_page_try_body:
  "try_body lib0 temp_file output_format (Text ''[null,null,[[[3,[]]]]]'') v
     = (None,
        v\<lparr>next_page_token := [],
           all_reviews := all_reviews v @
             [AList.update ''review_id'' (JStr ''3'') (default_result lib0)],
           fs := save_to_temp lib0
                   (all_reviews v @
                     [AList.update ''review_id'' (JStr ''3'') (default_result lib0)])
                   temp_file output_format (fs v)\<rparr>)"
  by (simp add: try_body_def lib0_loads_last_page sample_last_page_def extract_pagination_token_def
      extract_reviews_def sample_review_3)

text \<open>
  Claim C3 as stated fails for a target that is not positive. The driver takes the
  target 0 for no target: after the first page the two accumulated records are at least
  the target, and the driver fetches the second page and returns three records. With
  the target -1 it stops after the first page and returns all records but the last.
\<close>

theorem target_not_positive_counterexample:
  "fst (scrape_reviews lib0 self0 url0 (Some 0) ''en'' True ''json'' None
          [Text ''[null,7,[[[1,[]]],[[2,[]]]]]'', Text ''[null,null,[[[3,[]]]]]''] no_files)
     = Returned [AList.update ''review_id'' (JStr ''1'') (default_result lib0),
                 AList.update ''review_id'' (JStr ''2'') (default_result lib0),
                 AList.update ''review_id'' (JStr ''3'') (default_result lib0)]
   \<and> requests (snd (scrape_reviews lib0 self0 url0 (Some 0) ''en'' True ''json'' None
          [Text ''[null,7,[[[1,[]]],[[2,[]]]]]'', Text ''[null,null,[[[3,[]]]]]''] no_files))
     = [[], ''7'']
   \<and> fst (scrape_reviews lib0 self0 url0 (Some (- 1)) ''en'' True ''json'' None
          [Text ''[null,7,[[[1,[]]],[[2,[]]]]]'', Text ''[null,null,[[[3,[]]]]]''] no_files)
     = Returned [AList.update ''review_id'' (JStr ''1'') (default_result lib0)]"
  unfolding scrape_reviews_def url0_feature_id
  by (simp add: self0_retries sample_page_try_body sample_last_page_try_body after_page_def
      opt_truthy_def send_def finish_outcome finish_requests slice_to_def Let_def)

text \<open>The scenario of the specification in small: target 3, two records a page.\<close>

lemma target_three_two_per_page:
  "fst (scrape_reviews lib0 self0 url0 (Some 3) ''en'' True ''json'' None
          [Text ''[null,7,[[[1,[]]],[[2,[]]]]]'', Text ''[null,7,[[[1,[]]],[[2,[]]]]]'',
           Text ''[null,7,[[[1,[]]],[[2,[]]]]]''] no_files)
     = Returned [AList.update ''review_id'' (JStr ''1'') (default_result lib0),
                 AList.update ''review_id'' (JStr ''2'') (default_result lib0),
                 AList.update ''review_id'' (JStr ''1'') (default_result lib0)]
   \<and> requests (snd (scrape_reviews lib0 self0 url0 (Some 3) ''en'' True ''json'' None
          [Text ''[null,7,[[[1,[]]],[[2,[]]]]]'', Text ''[null,7,[[[1,[]]],[[2,[]]]]]'',
           Text ''[null,7,[[[1,[]]],[[2,[]]]]]''] no_files)) = [[], ''7'']"
  unfolding scrape_reviews_def url0_feature_id
  by (simp add: self0_retries sample_page_try_body after_page_def opt_truthy_def send_def
      finish_outcome finish_requests slice_to_def Let_def)

subsection \<open>Exhausted retries\<close>








lemma fails_try_body: "try_body L temp_file output_format (Fails e) v = (Some e, v)"
  by (simp add: try_body_def)

lemma retries_exhausted_example:
  "scrape_reviews lib0 (self0\<lparr>n_retries := 2\<rparr>) url0 None ''en'' True ''json'' (Some ''out.json'')
     [Text ''[null,7,[[[1,[]]],[[2,[]]]]]'', Fails RequestError, Fails RequestError] no_files
   = (Raised RequestError,
      \<lparr>all_reviews = [AList.update ''review_id'' (JStr ''1'') (default_result lib0),
                      AList.update ''review_id'' (JStr ''2'') (default_result lib0)],
       next_page_token = ''7'',
       fs = (save_to_temp lib0
               [AList.update ''review_id'' (JStr ''1'') (default_result lib0),
                AList.update ''review_id'' (JStr ''2'') (default_result lib0)]
               (temp_path ''0x89c2:0x1a2b'' ''json'') ''json'' no_files)
            (''out.json'' \<mapsto> json_dump lib0
               [AList.update ''review_id'' (JStr ''1'') (default_result lib0),
                AList.update ''review_id'' (JStr ''2'') (default_result lib0)]),
       requests = [[], ''7'', ''7'']\<rparr>)"
  unfolding scrape_reviews_def url0_feature_id
  by (simp add: self0_def scraper_init_def sample_page_try_body fails_try_body after_page_def
      opt_truthy_def path_truthy_def send_def on_exhausted_def save_final_output_def Let_def)











subsection \<open>The blocking wrapper on a sample run\<close>

lemma sample_run_target_one:
  "fst (scrape_reviews lib0 self0 url0 (Some 1) ''en'' True ''json'' None
          [Text ''[null,7,[[[1,[]]],[[2,[]]]]]''] no_files)
     = Returned [AList.update ''review_id'' (JStr ''1'') (default_result lib0)]"
  unfolding scrape_reviews_def url0_feature_id
  by (simp add: self0_retries sample_page_try_body after_page_def opt_truthy_def send_def
      finish_outcome slice_to_def Let_def)

theorem sync_wrapper_same_as_async_witness:
  "sync_scrape_reviews
       (scrape_reviews_under lib0 [Text ''[null,7,[[[1,[]]],[[2,[]]]]]''] no_files) False
       (sync_init scraper_init None (2 / 5) 10 30 True ''INFO'')
       url0 (Some 1) ''en'' True ''json'' None
     = Inr (scrape_reviews lib0 (scraper_init None (2 / 5) 10 30 True ''INFO'') url0 (Some 1)
              ''en'' True ''json'' None [Text ''[null,7,[[[1,[]]],[[2,[]]]]]''] no_files)
   \<and> fst (scrape_reviews lib0 (scraper_init None (2 / 5) 10 30 True ''INFO'') url0 (Some 1)
              ''en'' True ''json'' None [Text ''[null,7,[[[1,[]]],[[2,[]]]]]''] no_files)
     = Returned [AList.update ''review_id'' (JStr ''1'') (default_result lib0)]"
  using sync_wrapper_same_as_async [of "scrape_reviews_under lib0 [Text ''[null,7,[[[1,[]]],[[2,[]]]]]''] no_files"
      False scraper_init None "2 / 5" 10 30 True "''INFO''" url0 "Some 1" "''en''" True "''json''"
      None lib0 "[Text ''[null,7,[[[1,[]]],[[2,[]]]]]'']" no_files]
    sample_run_target_one
  by (simp add: self0_def scrape_reviews_under_def)

text \<open>
  Claim C10 as stated fails inside a running event loop: the asynchronous scraper
  returns a record, and the wrapper raises RuntimeError.
\<close>

theorem sync_wrapper_running_loop_counterexample:
  "sync_scrape_reviews
       (scrape_reviews_under lib0 [Text ''[null,7,[[[1,[]]],[[2,[]]]]]''] no_files) True
       (sync_init scraper_init None (2 / 5) 10 30 True ''INFO'')
       url0 (Some 1) ''en'' True ''json'' None
     = Inl RuntimeError
   \<and> fst (scrape_reviews lib0 (scraper_init None (2 / 5) 10 30 True ''INFO'') url0 (Some 1)
              ''en'' True ''json'' None [Text ''[null,7,[[[1,[]]],[[2,[]]]]]''] no_files)
     = Returned [AList.update ''review_id'' (JStr ''1'') (default_result lib0)]"
  using sample_run_target_one
  by (simp add: sync_scrape_reviews_def asyncio_run_def self0_def)

section \<open>Properties of the field mapping\<close>

lemma keeps_skip: "keeps_fields skip"
  by (simp add: keeps_fields_def skip_def)

lemma keeps_raise: "keeps_fields (raise e)"
  by (simp add: keeps_fields_def raise_def)

lemma keeps_assign: "k \<in> set field_names \<Longrightarrow> keeps_fields (assign k v)"
  by (auto simp: keeps_fields_def assign_def update_keys split: sum.splits option.splits)

lemma keeps_seq: "list_all keeps_fields ss \<Longrightarrow> keeps_fields (seq_steps ss)"
proof (induction ss)
  case Nil
  then show ?case by (simp add: keeps_fields_def)
next
  case (Cons s ss)
  then have s: "keeps_fields s" and ss: "keeps_fields (seq_steps ss)" by simp_all
  show ?case
    unfolding keeps_fields_def
  proof (intro allI impI)
    fix result :: review
    assume k: "map fst result = field_names"
    obtain r' x where sr: "s result = (r', x)" by (cases "s result")
    with s k have "map fst r' = field_names" by (auto simp: keeps_fields_def)
    with ss sr show "map fst (fst (seq_steps (s # ss) result)) = field_names"
      by (cases x) (auto simp: keeps_fields_def)
  qed
qed

lemma leaves_skip: "leaves k skip"
  by (simp add: leaves_def skip_def)

lemma leaves_raise: "leaves k (raise e)"
  by (simp add: leaves_def raise_def)

lemma leaves_assign: "k \<noteq> k' \<Longrightarrow> leaves k (assign k' v)"
  by (auto simp: leaves_def assign_def update_conv' split: sum.splits option.splits)

lemma leaves_seq: "list_all (leaves k) ss \<Longrightarrow> leaves k (seq_steps ss)"
proof (induction ss)
  case Nil
  then show ?case by (simp add: leaves_def)
next
  case (Cons s ss)
  then have s: "leaves k s" and ss: "leaves k (seq_steps ss)" by simp_all
  show ?case
    unfolding leaves_def
  proof
    fix result :: review
    obtain r' x where sr: "s result = (r', x)" by (cases "s result")
    from s have "map_of (fst (s result)) k = map_of result k" by (simp add: leaves_def)
    with sr have "map_of r' k = map_of result k" by simp
    moreover from ss have "map_of (fst (seq_steps ss r')) k = map_of r' k"
      by (simp add: leaves_def)
    ultimately show "map_of (fst (seq_steps (s # ss) result)) k = map_of result k"
      using sr by (cases x) simp_all
  qed
qed

lemma field_names_simps:
  "''review_id'' \<in> set field_names" "''user_name'' \<in> set field_names"
  "''user_url'' \<in> set field_names" "''user_reviews'' \<in> set field_names"
  "''rating'' \<in> set field_names" "''relative_date'' \<in> set field_names"
  "''text'' \<in> set field_names" "''text_date'' \<in> set field_names"
  "''response_text'' \<in> set field_names" "''response_relative_date'' \<in> set field_names"
  "''response_text_date'' \<in> set field_names"
  by (simp_all add: field_names_def)

lemma keeps_review_id_step: "keeps_fields (review_id_step L x)"
  by (auto simp: review_id_step_def keeps_skip keeps_raise keeps_assign field_names_simps
      split: sum.splits)

lemma keeps_user_info_steps: "keeps_fields (user_info_steps L m)"
  by (auto simp: user_info_steps_def keeps_skip keeps_assign keeps_seq field_names_simps
      split: option.splits json.splits)

lemma keeps_metadata_step: "keeps_fields (metadata_step L x)"
  by (auto simp: metadata_step_def keeps_skip keeps_raise keeps_assign keeps_seq
      keeps_user_info_steps field_names_simps split: sum.splits option.splits)

lemma keeps_content_step: "keeps_fields (content_step L x)"
  by (auto simp: content_step_def keeps_skip keeps_raise keeps_assign keeps_seq
      field_names_simps split: sum.splits option.splits)

lemma keeps_response_step: "keeps_fields (response_step L x)"
  by (auto simp: response_step_def keeps_skip keeps_raise keeps_assign keeps_seq
      field_names_simps split: sum.splits option.splits)

lemma keeps_fallback_step: "date_key \<in> set field_names \<Longrightarrow> keeps_fields (fallback_step L rel_key date_key)"
  by (auto simp: keeps_fields_def fallback_step_def update_keys split: sum.splits option.splits)

lemma default_result_fields: "map fst (default_result L) = field_names"
  by (simp add: default_result_def field_names_def)

lemma body_fields: "map fst (fst (extract_review_body L x)) = field_names"
proof -
  have "keeps_fields (seq_steps [review_id_step L x, metadata_step L x, content_step L x,
          response_step L x, fallback_step L ''relative_date'' ''text_date'',
          fallback_step L ''response_relative_date'' ''response_text_date''])"
    by (intro keeps_seq)
       (simp add: keeps_review_id_step keeps_metadata_step keeps_content_step
          keeps_response_step keeps_fallback_step field_names_simps)
  then show ?thesis
    by (auto simp: extract_review_body_def Let_def keeps_fields_def default_result_fields
        split: sum.splits)
qed

lemma extract_review_data_body:
  "extract_review_data L x = Inr (fst (extract_review_body L x))"
proof -
  have "is_Exception e" for e by (cases e) simp_all
  then show ?thesis
    by (simp add: extract_review_data_def split: prod.splits option.splits)
qed

lemma leaves_review_id_rest:
  "leaves ''review_id'' (seq_steps [metadata_step L x, content_step L x,
      response_step L x, fallback_step L ''relative_date'' ''text_date'',
      fallback_step L ''response_relative_date'' ''response_text_date''])"
proof -
  have u: "leaves ''review_id'' (user_info_steps L m)" for m
    by (auto simp: user_info_steps_def leaves_skip leaves_assign leaves_seq
        split: option.splits json.splits)
  have m: "leaves ''review_id'' (metadata_step L x)"
    by (auto simp: metadata_step_def leaves_skip leaves_raise leaves_assign leaves_seq u
        split: sum.splits option.splits)
  have c: "leaves ''review_id'' (content_step L x)"
    by (auto simp: content_step_def leaves_skip leaves_raise leaves_assign leaves_seq
        split: sum.splits option.splits)
  have r: "leaves ''review_id'' (response_step L x)"
    by (auto simp: response_step_def leaves_skip leaves_raise leaves_assign leaves_seq
        split: sum.splits option.splits)
  have f: "leaves ''review_id'' (fallback_step L rel_key date_key)"
    if "date_key \<noteq> ''review_id''" for rel_key date_key
    using that
    by (auto simp: leaves_def fallback_step_def update_conv' split: sum.splits option.splits)
  show ?thesis
    by (intro leaves_seq) (simp add: m c r f)
qed

text \<open>
  Claim C5, as amended. For every raw review array, the mapping returns a record whose
  review\_id is the stringification of the element at index 0 when the array has at
  least two elements and that element is truthy; it is the empty string when the array
  has fewer than two elements or the element is falsy.
\<close>

theorem review_id_of_array:
  "\<exists>r. extract_review_data L (JArr xs) = Inr r
       \<and> dict_get r ''review_id''
           = JStr (if 2 \<le> length xs \<and> truthy (xs ! 0) then py_str L (xs ! 0) else [])"
proof -
  define r where "r = fst (extract_review_body L (JArr xs))"
  have d: "map_of (default_result L) ''review_id'' = Some (JStr [])"
    by (simp add: default_result_def)
  have "map_of r ''review_id''
          = Some (JStr (if 2 \<le> length xs \<and> truthy (xs ! 0) then py_str L (xs ! 0) else []))"
  proof (cases "2 \<le> length xs")
    case False
    then have "r = default_result L"
      by (auto simp: r_def extract_review_body_def Let_def)
    with False d show ?thesis by simp
  next
    case True
    define r1 where "r1 = (if truthy (xs ! 0)
        then AList.update ''review_id'' (JStr (py_str L (xs ! 0))) (default_result L)
        else default_result L)"
    have s1: "review_id_step L (JArr xs) (default_result L) = (r1, None)"
      using True by (auto simp: review_id_step_def assign_def skip_def r1_def)
    have "r = fst (seq_steps [metadata_step L (JArr xs), content_step L (JArr xs),
        response_step L (JArr xs), fallback_step L ''relative_date'' ''text_date'',
        fallback_step L ''response_relative_date'' ''response_text_date''] r1)"
      using True s1 by (auto simp: r_def extract_review_body_def Let_def)
    then have "map_of r ''review_id'' = map_of r1 ''review_id''"
      using leaves_review_id_rest [of L "JArr xs"] by (simp add: leaves_def)
    with True d show ?thesis
      by (simp add: r1_def update_conv')
  qed
  then show ?thesis
    by (simp add: extract_review_data_body r_def dict_get_def)
qed

theorem review_id_of_array_witness:
  "(\<exists>r. extract_review_data lib0 (JArr [JStr ''id1'', JArr []]) = Inr r
        \<and> dict_get r ''review_id'' = JStr ''id1'')
   \<and> (\<exists>r. extract_review_data lib0 (JArr [JNull, JArr []]) = Inr r
        \<and> dict_get r ''review_id'' = JStr [])"
  using review_id_of_array [of lib0 "[JStr ''id1'', JArr []]"]
    review_id_of_array [of lib0 "[JNull, JArr []]"]
  by (simp add: py_str_def)

text \<open>
  Claim C5 as stated fails on an array of one element: the element at index 0 is
  present and truthy, and review\_id is the empty string.
\<close>

theorem review_id_one_element_counterexample:
  "truthy (JStr ''id1'')
   \<and> extract_review_data lib0 (JArr [JStr ''id1'']) = Inr (default_result lib0)
   \<and> dict_get (default_result lib0) ''review_id'' = JStr []"
  by (simp add: extract_review_data_body extract_review_body_def default_result_def dict_get_def)

subsection \<open>The mapping never raises; a timestamp that overflows ends it\<close>

text \<open>
  For every input value the mapping returns a record and does not raise, and the record
  has exactly the fifteen documented fields, in their order.
\<close>

lemma map_review_never_raises:
  "\<exists>r. extract_review_data L x = Inr r \<and> map fst r = field_names"
  by (simp add: extract_review_data_body body_fields)

lemma fifteen_fields: "length field_names = 15 \<and> distinct field_names"
  by (simp add: field_names_def)

lemma int_of_soon: "int_of_str ''soon'' = Inl ValueError"
  by (simp add: int_of_str_def is_int_space_def int_of_digits_def is_digit_def)

text \<open>The blocks of the mapping on the review of the end-to-end scenario.\<close>

lemma scenario_sized:
  "truthy (review_with_timestamp ts)" "py_len (review_with_timestamp ts) = Inr 3"
  by (simp_all add: review_with_timestamp_def)

lemma scenario_review_id:
  "review_id_step L (review_with_timestamp ts) result
     = (AList.update ''review_id'' (JStr ''id1'') result, None)"
  by (simp add: review_id_step_def review_with_timestamp_def assign_def py_str_def)

lemma scenario_metadata_overflow:
  "metadata_step L (review_with_timestamp (JFloat PInf)) result = (result, Some OverflowError)"
  by (simp add: metadata_step_def review_with_timestamp_def list_at_def assign_def
      timestamp_value_def caught_by_def)

lemma scenario_metadata_refused:
  "metadata_step L (review_with_timestamp (JStr ''soon'')) result
     = (AList.update ''relative_date'' (JStr ''2 weeks ago'') result, None)"
  by (simp add: metadata_step_def review_with_timestamp_def list_at_def assign_def
      timestamp_value_def int_of_soon caught_by_def user_info_steps_def sub_list_def skip_def
      str_value_def py_str_def)

lemma scenario_content:
  "content_step L (review_with_timestamp ts) result
     = (AList.update ''text'' (JStr ''Great place!'')
          (AList.update ''rating'' (JFloat (Fin 4)) result), None)"
  by (simp add: content_step_def review_with_timestamp_def list_at_def assign_def
      rating_value_def text_value_def sub_list_def)

lemma scenario_response:
  "response_step L (review_with_timestamp ts) result = (result, None)"
  by (simp add: response_step_def review_with_timestamp_def list_at_def skip_def)

lemma seq_steps_next: "s result = (result', None) \<Longrightarrow> seq_steps (s # ss) result = seq_steps ss result'"
  by simp

lemma leaves_fallback:
  "k \<noteq> date_key \<Longrightarrow> leaves k (fallback_step L rel_key date_key)"
  by (auto simp: leaves_def fallback_step_def update_conv' split: sum.splits option.splits)

lemma scenario_fallbacks:
  assumes "k \<noteq> ''text_date''" and "k \<noteq> ''response_text_date''"
  shows "dict_get (fst (seq_steps [fallback_step L ''relative_date'' ''text_date'',
                          fallback_step L ''response_relative_date'' ''response_text_date'']
                         result)) k
           = dict_get result k"
proof -
  have "leaves k (seq_steps [fallback_step L ''relative_date'' ''text_date'',
                     fallback_step L ''response_relative_date'' ''response_text_date''])"
    using assms by (intro leaves_seq) (simp add: leaves_fallback)
  then show ?thesis by (simp add: leaves_def dict_get_def)
qed

text \<open>
  Claim C2, the code at the failing input. The review of the end-to-end scenario
  arrives with the timestamp \<^verbatim>\<open>1e999\<close>, which \<^verbatim>\<open>json.loads\<close> reads as infinity.
  \<^verbatim>\<open>int\<close> raises OverflowError, which the handler of the timestamp block does not
  name; the handler around the whole body swallows it and the mapping ends there: the
  rating, the text and the relative date, all present in the input, stay at their
  defaults. With a timestamp that \<^verbatim>\<open>int\<close> refuses with ValueError, which the handler
  does name, the same fields are populated.
\<close>

theorem infinite_timestamp_loses_siblings:
  "extract_review_data L (review_with_timestamp (JFloat PInf))
     = Inr (AList.update ''review_id'' (JStr ''id1'') (default_result L))
   \<and> dict_get (AList.update ''review_id'' (JStr ''id1'') (default_result L)) ''rating''
       = JFloat (Fin 0)
   \<and> dict_get (AList.update ''review_id'' (JStr ''id1'') (default_result L)) ''text'' = JStr []
   \<and> dict_get (AList.update ''review_id'' (JStr ''id1'') (default_result L)) ''relative_date''
       = JStr []
   \<and> (\<exists>r. extract_review_data L (review_with_timestamp (JStr ''soon'')) = Inr r
          \<and> dict_get r ''review_id'' = JStr ''id1''
          \<and> dict_get r ''rating'' = JFloat (Fin 4)
          \<and> dict_get r ''text'' = JStr ''Great place!''
          \<and> dict_get r ''relative_date'' = JStr ''2 weeks ago'')"
proof -
  have bad: "extract_review_data L (review_with_timestamp (JFloat PInf))
     = Inr (AList.update ''review_id'' (JStr ''id1'') (default_result L))"
    by (simp add: extract_review_data_body extract_review_body_def scenario_sized
        scenario_review_id scenario_metadata_overflow)
  have defaults:
    "dict_get (AList.update ''review_id'' (JStr ''id1'') (default_result L)) ''rating''
       = JFloat (Fin 0)"
    "dict_get (AList.update ''review_id'' (JStr ''id1'') (default_result L)) ''text'' = JStr []"
    "dict_get (AList.update ''review_id'' (JStr ''id1'') (default_result L)) ''relative_date''
       = JStr []"
    by (simp_all add: default_result_def dict_get_def)
  define r3 where "r3 = AList.update ''text'' (JStr ''Great place!'')
      (AList.update ''rating'' (JFloat (Fin 4))
         (AList.update ''relative_date'' (JStr ''2 weeks ago'')
            (AList.update ''review_id'' (JStr ''id1'') (default_result L))))"
  define r where "r = fst (seq_steps [fallback_step L ''relative_date'' ''text_date'',
      fallback_step L ''response_relative_date'' ''response_text_date''] r3)"
  have "fst (extract_review_body L (review_with_timestamp (JStr ''soon''))) = r"
    unfolding extract_review_body_def Let_def r_def r3_def
    by (simp only: scenario_sized seq_steps_next [OF scenario_review_id]
        seq_steps_next [OF scenario_metadata_refused] seq_steps_next [OF scenario_content]
        seq_steps_next [OF scenario_response]) simp
  then have e: "extract_review_data L (review_with_timestamp (JStr ''soon'')) = Inr r"
    by (simp add: extract_review_data_body)
  have v: "dict_get r3 ''review_id'' = JStr ''id1''" "dict_get r3 ''rating'' = JFloat (Fin 4)"
    "dict_get r3 ''text'' = JStr ''Great place!''"
    "dict_get r3 ''relative_date'' = JStr ''2 weeks ago''"
    by (simp_all add: r3_def default_result_def dict_get_def)
  have "dict_get r ''review_id'' = JStr ''id1''" "dict_get r ''rating'' = JFloat (Fin 4)"
    "dict_get r ''text'' = JStr ''Great place!''"
    "dict_get r ''relative_date'' = JStr ''2 weeks ago''"
    unfolding r_def by (simp_all add: scenario_fallbacks v del: seq_steps.simps)
  with e bad defaults show ?thesis by blast
qed

end
